theory Spec2Isabelle
  imports Complex_Main "HOL-Library.Word" "HOL-Library.Log_Nat"
begin

section \<open>The shot container of the direct multiple shooting solver\<close>

text \<open>
  The class \<open>ShotContainer\<close> (ct/optcon/dms/dms_core/ShotContainer.h) integrates the state,
  the cost and their sensitivities over one shot, and caches what it computed. Each of its
  four integration methods compares the update counter of the optimisation vector \<open>w_\<close>
  with a counter of its own and recomputes only when the two differ.

  Conventions of the model.
  \<^item> A member \<open>m_\<close> of the class is the field \<open>m\<close>: a name cannot end in an underscore here.
  \<^item> A \<open>double\<close> that the container only stores, copies and hands on is a \<open>real\<close>. The one
    place where the class computes with doubles is the step count in the constructor;
    there every operation is the binary64 operation, rounded to nearest with ties to
    even, and its result a value of the type \<open>double\<close> below.
  \<^item> A fixed-size Eigen vector is a list of reals, a matrix a list of rows.
  \<^item> A \<open>size_t\<close> member (the four counters and the step count) is a 64-bit word; the shot
    index and the horizon length are only compared and are natural numbers.
  \<^item> The objects behind the shared pointers are not part of the class. The optimisation
    vector and the time grid are records of what their methods return; the integrator is
    a record of functions over an arbitrary type \<open>'i\<close> of integrator states, each function
    returning the new integrator state together with the new value of its reference
    argument. The integrator's methods are taken to return normally.
\<close>

subsection \<open>Values\<close>

type_synonym size_t = "64 word"
type_synonym state_vector_t = "real list"
type_synonym control_vector_t = "real list"
type_synonym state_matrix_t = "real list list"
type_synonym state_control_matrix_t = "real list list"
type_synonym state_vector_array_t = "state_vector_t list"
type_synonym control_vector_array_t = "control_vector_t list"
type_synonym time_array_t = "real list"

text \<open>Eigen's \<open>setIdentity()\<close>, \<open>setZero()\<close> and \<open>Zero()\<close> on fixed-size objects.\<close>

definition setIdentity :: "nat \<Rightarrow> real list list" where
  "setIdentity n = map (\<lambda>i. map (\<lambda>j. if i = j then 1 else 0) [0..<n]) [0..<n]"

definition setZero_matrix :: "nat \<Rightarrow> nat \<Rightarrow> real list list" where
  "setZero_matrix rows cols = replicate rows (replicate cols 0)"

definition setZero_vector :: "nat \<Rightarrow> real list" where
  "setZero_vector n = replicate n 0"

subsection \<open>Settings and collaborators\<close>

text \<open>
  Modelled from the spec: the declaration of \<open>DmsSettings\<close> is not among the sources. The
  class reads the fields \<open>N_\<close>, \<open>dt_sim_\<close>, \<open>integrationType_\<close>, \<open>splineType_\<close> and
  \<open>costEvaluationType_\<close> and names the enumerators \<open>EULER\<close>, \<open>RK4\<close>, \<open>RK5\<close>,
  \<open>PIECEWISE_LINEAR\<close> and \<open>FULL\<close>; the spec gives the other spline type as piecewise
  constant and the other cost evaluation mode as none. Any further value of the integration
  type is \<open>IntegrationType_unknown\<close>, the \<open>default\<close> label of the constructor's switch.
\<close>

datatype IntegrationType = EULER | RK4 | RK5 | IntegrationType_unknown nat

datatype SplineType = PIECEWISE_CONSTANT | PIECEWISE_LINEAR

datatype CostEvaluationType = NO_COST_EVALUATION | FULL

record DmsSettings =
  N :: nat
  dt_sim :: real
  integrationType :: IntegrationType
  splineType :: SplineType
  costEvaluationType :: CostEvaluationType

text \<open>\<open>OptVectorDms\<close>, as far as the container reads it.\<close>

record OptVectorDms =
  getUpdateCount :: size_t
  getOptimizedState :: "nat \<Rightarrow> state_vector_t"

record TimeGrid =
  getShotStartTime :: "nat \<Rightarrow> real"
  getShotEndTime :: "nat \<Rightarrow> real"

record SplinerBase =
  evalSpline :: "real \<Rightarrow> nat \<Rightarrow> control_vector_t"

datatype IntegrationTypeCT = CT_EULER | CT_RK4

text \<open>
  \<open>SensitivityIntegratorCT\<close>: one function per method the container calls. The arguments
  after the integrator state are those of the call; a reference argument is passed in and
  returned.
\<close>

record 'i SensitivityIntegratorCT =
  create_CT :: "IntegrationTypeCT \<Rightarrow> 'i"
  setLinearSystem_CT :: "'i \<Rightarrow> 'i"
  setCostFunction_CT :: "'i \<Rightarrow> 'i"
  integrate_CT :: "'i \<Rightarrow> state_vector_t \<Rightarrow> real \<Rightarrow> size_t \<Rightarrow> real
     \<Rightarrow> state_vector_array_t \<Rightarrow> time_array_t \<Rightarrow> 'i \<times> state_vector_array_t \<times> time_array_t"
  integrateCost_CT :: "'i \<Rightarrow> real \<Rightarrow> real \<Rightarrow> size_t \<Rightarrow> real \<Rightarrow> 'i \<times> real"
  linearize_CT :: "'i \<Rightarrow> 'i"
  integrateSensitivityDX0_CT :: "'i \<Rightarrow> state_matrix_t \<Rightarrow> real \<Rightarrow> size_t \<Rightarrow> real \<Rightarrow> 'i \<times> state_matrix_t"
  integrateSensitivityDU0_CT :: "'i \<Rightarrow> state_control_matrix_t \<Rightarrow> real \<Rightarrow> size_t \<Rightarrow> real
     \<Rightarrow> 'i \<times> state_control_matrix_t"
  integrateSensitivityDUf_CT :: "'i \<Rightarrow> state_control_matrix_t \<Rightarrow> real \<Rightarrow> size_t \<Rightarrow> real
     \<Rightarrow> 'i \<times> state_control_matrix_t"
  integrateCostSensitivityDX0_CT :: "'i \<Rightarrow> state_vector_t \<Rightarrow> real \<Rightarrow> size_t \<Rightarrow> real \<Rightarrow> 'i \<times> state_vector_t"
  integrateCostSensitivityDU0_CT :: "'i \<Rightarrow> control_vector_t \<Rightarrow> real \<Rightarrow> size_t \<Rightarrow> real \<Rightarrow> 'i \<times> control_vector_t"
  integrateCostSensitivityDUf_CT :: "'i \<Rightarrow> control_vector_t \<Rightarrow> real \<Rightarrow> size_t \<Rightarrow> real \<Rightarrow> 'i \<times> control_vector_t"
  clearStates_CT :: "'i \<Rightarrow> 'i"
  clearSensitivities_CT :: "'i \<Rightarrow> 'i"
  clearLinearization_CT :: "'i \<Rightarrow> 'i"

text \<open>
  The calls made on \<open>integratorCT\<close>, each with the value passed for its reference argument
  (for \<open>integrate\<close>: the initial state).
\<close>

datatype IntegratorCall =
    SetLinearSystem
  | SetCostFunction
  | Integrate state_vector_t
  | IntegrateCost real
  | Linearize
  | IntegrateSensitivityDX0 state_matrix_t
  | IntegrateSensitivityDU0 state_control_matrix_t
  | IntegrateSensitivityDUf state_control_matrix_t
  | IntegrateCostSensitivityDX0 state_vector_t
  | IntegrateCostSensitivityDU0 control_vector_t
  | IntegrateCostSensitivityDUf control_vector_t
  | ClearStates
  | ClearSensitivities
  | ClearLinearization

subsection \<open>The container\<close>

text \<open>
  The members of the class. \<open>STATE_DIM\<close> and \<open>CONTROL_DIM\<close> are the template arguments.
  \<open>invocations\<close> is not a member: it lists the calls made on \<open>integratorCT\<close> so far, in
  order, and nothing reads it.
\<close>

record 'i ShotContainer =
  STATE_DIM :: nat
  CONTROL_DIM :: nat
  shotNr :: nat
  settings :: DmsSettings
  integrationCount :: size_t
  costIntegrationCount :: size_t
  sensIntegrationCount :: size_t
  costSensIntegrationCount :: size_t
  x_history :: state_vector_array_t
  u_history :: control_vector_array_t
  t_history :: time_array_t
  dXdSiBack :: state_matrix_t
  dXdQiBack :: state_control_matrix_t
  dXdQip1Back :: state_control_matrix_t
  cost :: real
  costGradientSi :: state_vector_t
  costGradientQi :: control_vector_t
  costGradientQip1 :: control_vector_t
  integratorCT :: 'i
  nSteps :: size_t
  tStart :: real
  invocations :: "IntegratorCall list"

subsection \<open>Calls on the integrator\<close>

text \<open>
  Each definition is one statement \<open>integratorCT->m(member, tStart, nSteps, settings.dt_sim)\<close>
  of the class: the integrator state and the member passed by reference are replaced by
  what the method returns, and the call is appended to \<open>invocations\<close>.
\<close>

definition call_integrate ::
  "'i SensitivityIntegratorCT \<Rightarrow> state_vector_t \<Rightarrow> 'i ShotContainer \<Rightarrow> 'i ShotContainer" where
  "call_integrate I initState c =
     (let r = integrate_CT I (integratorCT c) initState (tStart c) (nSteps c)
                (dt_sim (settings c)) (x_history c) (t_history c)
      in c\<lparr>x_history := fst (snd r), t_history := snd (snd r), integratorCT := fst r,
           invocations := invocations c @ [Integrate initState]\<rparr>)"

definition call_integrateCost :: "'i SensitivityIntegratorCT \<Rightarrow> 'i ShotContainer \<Rightarrow> 'i ShotContainer" where
  "call_integrateCost I c =
     (let r = integrateCost_CT I (integratorCT c) (cost c) (tStart c) (nSteps c)
                (dt_sim (settings c))
      in c\<lparr>cost := snd r, integratorCT := fst r,
           invocations := invocations c @ [IntegrateCost (cost c)]\<rparr>)"

definition call_linearize :: "'i SensitivityIntegratorCT \<Rightarrow> 'i ShotContainer \<Rightarrow> 'i ShotContainer" where
  "call_linearize I c =
     c\<lparr>integratorCT := linearize_CT I (integratorCT c),
       invocations := invocations c @ [Linearize]\<rparr>"

definition call_integrateSensitivityDX0 ::
  "'i SensitivityIntegratorCT \<Rightarrow> 'i ShotContainer \<Rightarrow> 'i ShotContainer" where
  "call_integrateSensitivityDX0 I c =
     (let r = integrateSensitivityDX0_CT I (integratorCT c) (dXdSiBack c) (tStart c)
                (nSteps c) (dt_sim (settings c))
      in c\<lparr>dXdSiBack := snd r, integratorCT := fst r,
           invocations := invocations c @ [IntegrateSensitivityDX0 (dXdSiBack c)]\<rparr>)"

definition call_integrateSensitivityDU0 ::
  "'i SensitivityIntegratorCT \<Rightarrow> 'i ShotContainer \<Rightarrow> 'i ShotContainer" where
  "call_integrateSensitivityDU0 I c =
     (let r = integrateSensitivityDU0_CT I (integratorCT c) (dXdQiBack c) (tStart c)
                (nSteps c) (dt_sim (settings c))
      in c\<lparr>dXdQiBack := snd r, integratorCT := fst r,
           invocations := invocations c @ [IntegrateSensitivityDU0 (dXdQiBack c)]\<rparr>)"

definition call_integrateSensitivityDUf ::
  "'i SensitivityIntegratorCT \<Rightarrow> 'i ShotContainer \<Rightarrow> 'i ShotContainer" where
  "call_integrateSensitivityDUf I c =
     (let r = integrateSensitivityDUf_CT I (integratorCT c) (dXdQip1Back c) (tStart c)
                (nSteps c) (dt_sim (settings c))
      in c\<lparr>dXdQip1Back := snd r, integratorCT := fst r,
           invocations := invocations c @ [IntegrateSensitivityDUf (dXdQip1Back c)]\<rparr>)"

definition call_integrateCostSensitivityDX0 ::
  "'i SensitivityIntegratorCT \<Rightarrow> 'i ShotContainer \<Rightarrow> 'i ShotContainer" where
  "call_integrateCostSensitivityDX0 I c =
     (let r = integrateCostSensitivityDX0_CT I (integratorCT c) (costGradientSi c) (tStart c)
                (nSteps c) (dt_sim (settings c))
      in c\<lparr>costGradientSi := snd r, integratorCT := fst r,
           invocations := invocations c @ [IntegrateCostSensitivityDX0 (costGradientSi c)]\<rparr>)"

definition call_integrateCostSensitivityDU0 ::
  "'i SensitivityIntegratorCT \<Rightarrow> 'i ShotContainer \<Rightarrow> 'i ShotContainer" where
  "call_integrateCostSensitivityDU0 I c =
     (let r = integrateCostSensitivityDU0_CT I (integratorCT c) (costGradientQi c) (tStart c)
                (nSteps c) (dt_sim (settings c))
      in c\<lparr>costGradientQi := snd r, integratorCT := fst r,
           invocations := invocations c @ [IntegrateCostSensitivityDU0 (costGradientQi c)]\<rparr>)"

definition call_integrateCostSensitivityDUf ::
  "'i SensitivityIntegratorCT \<Rightarrow> 'i ShotContainer \<Rightarrow> 'i ShotContainer" where
  "call_integrateCostSensitivityDUf I c =
     (let r = integrateCostSensitivityDUf_CT I (integratorCT c) (costGradientQip1 c) (tStart c)
                (nSteps c) (dt_sim (settings c))
      in c\<lparr>costGradientQip1 := snd r, integratorCT := fst r,
           invocations := invocations c @ [IntegrateCostSensitivityDUf (costGradientQip1 c)]\<rparr>)"

subsection \<open>Double-precision arithmetic\<close>

text \<open>
  The constructor computes the step count with the expression
  \<open>double(t_shot_end - tStart_) / double(settings_.dt_sim_) + 0.5\<close> and assigns it to the
  \<open>size_t\<close> member \<open>nSteps_\<close>. Its three operations are binary64 operations (IEEE 754,
  round to nearest, ties to even, each operation rounded on its own, as on x86-64), followed
  by the conversion of a \<open>double\<close> to \<open>size_t\<close>.

  A value of type \<open>double\<close> is a finite number, an infinity or a NaN. The operands read from
  the time grid and the settings are finite doubles and are given as reals; a zero among
  them is the positive zero. The sign of a zero result is not kept: the expression divides
  by \<open>dt_sim_\<close> only, and a zero quotient plus \<open>0.5\<close> is \<open>0.5\<close> whatever its sign.
\<close>

datatype double = Finite real | PosInf | NegInf | NaN

text \<open>\<open>pow2 e\<close> is \<open>2\<close> to the power \<open>e\<close>, for an integer \<open>e\<close> of either sign.\<close>

definition pow2 :: "int \<Rightarrow> real" where
  "pow2 e = (if 0 \<le> e then 2 ^ nat e else 1 / 2 ^ nat (- e))"

text \<open>The integer nearest to \<open>y\<close>, the even one of the two when \<open>y\<close> lies halfway.\<close>

definition round_half_even :: "real \<Rightarrow> int" where
  "round_half_even y =
     (let f = \<lfloor>y\<rfloor>; r = y - of_int f
      in if r < 1 / 2 then f else if 1 / 2 < r then f + 1 else if even f then f else f + 1)"

text \<open>
  The binary exponent of \<open>x\<close> as a binary64 number: the \<open>e\<close> with \<open>2^e \<le> |x| < 2^(e+1)\<close>, and
  \<open>-1022\<close> for a subnormal \<open>x\<close> and for zero. It is read off the bit length of \<open>|x|\<close> in units
  of \<open>2^(-1074)\<close>, the smallest positive binary64 number.
\<close>

definition subnormal_scale :: nat where
  "subnormal_scale = 1074"

definition exponent64 :: "real \<Rightarrow> int" where
  "exponent64 x =
     max (bitlen \<lfloor>\<bar>x\<bar> * 2 ^ subnormal_scale\<rfloor> - int subnormal_scale - 1) (- 1022)"

text \<open>
  Rounding of a real to binary64: to the nearest multiple of the unit in the last place
  \<open>2^(e-52)\<close> of its 53-bit significand, and to an infinity when that multiple reaches \<open>2^1024\<close>.
\<close>

definition round64 :: "real \<Rightarrow> double" where
  "round64 x =
     (let u = pow2 (exponent64 x - 52);
          r = of_int (round_half_even (x / u)) * u
      in if \<bar>r\<bar> < 2 ^ 1024 then Finite r else if 0 < r then PosInf else NegInf)"

text \<open>
  The operators \<open>-\<close>, \<open>/\<close> and \<open>+\<close> of the expression. The subtraction has two finite
  operands. The division has the difference as dividend and the finite \<open>dt_sim_\<close> as
  divisor; the addition has the quotient and the constant \<open>0.5\<close>.
\<close>

definition double_sub :: "real \<Rightarrow> real \<Rightarrow> double" where
  "double_sub a b = round64 (a - b)"

definition double_div :: "double \<Rightarrow> real \<Rightarrow> double" where
  "double_div a b =
     (case a of
        Finite x \<Rightarrow>
          if b = 0 then (if 0 < x then PosInf else if x < 0 then NegInf else NaN)
          else round64 (x / b)
      | PosInf \<Rightarrow> if 0 \<le> b then PosInf else NegInf
      | NegInf \<Rightarrow> if 0 \<le> b then NegInf else PosInf
      | NaN \<Rightarrow> NaN)"

definition double_add :: "double \<Rightarrow> real \<Rightarrow> double" where
  "double_add a b = (case a of Finite x \<Rightarrow> round64 (x + b) | _ \<Rightarrow> a)"

text \<open>
  The conversion of a \<open>double\<close> to \<open>size_t\<close> drops the fraction (rounds toward zero). C++
  defines its result when the truncated value is in the range of \<open>size_t\<close>, that is from
  \<open>0\<close> to \<open>2^64 - 1\<close>. Outside that range the language defines no result; the value taken
  here is the one the x86-64 conversion sequence of GCC yields: a negative value down to
  \<open>-2^63\<close> wraps around modulo \<open>2^64\<close>, a smaller value, minus infinity and NaN give
  \<open>2^63\<close>, a value from \<open>2^64\<close> on and plus infinity give \<open>0\<close>.
\<close>

definition truncate_double :: "real \<Rightarrow> int" where
  "truncate_double x = (if 0 \<le> x then \<lfloor>x\<rfloor> else \<lceil>x\<rceil>)"

definition double_to_size_t :: "double \<Rightarrow> size_t" where
  "double_to_size_t a =
     (case a of
        Finite x \<Rightarrow>
          (let t = truncate_double x
           in if - (2 ^ 63) \<le> t \<and> t < 2 ^ 64 then word_of_int t
              else if t < 0 then 2 ^ 63 else 0)
      | PosInf \<Rightarrow> 0
      | NegInf \<Rightarrow> 2 ^ 63
      | NaN \<Rightarrow> 2 ^ 63)"

subsection \<open>Construction\<close>

datatype error = runtime_error string | exit_process int

text \<open>
  The member initialisers and the constructor body after the \<open>switch\<close>, for the integrator
  instance \<open>ig\<close> the switch allocated. The three sensitivity matrices have no initialiser:
  their first contents are whatever the storage holds, here the arguments \<open>m0\<close>, \<open>m1\<close>,
  \<open>m2\<close>. The step count is the value of
  \<open>double(t_shot_end - tStart_) / double(settings_.dt_sim_) + 0.5\<close>, converted to \<open>size_t\<close>
  by the assignment to \<open>nSteps_\<close>.
\<close>

definition construct_members ::
  "'i SensitivityIntegratorCT \<Rightarrow> nat \<Rightarrow> nat \<Rightarrow> TimeGrid \<Rightarrow> nat \<Rightarrow> DmsSettings
     \<Rightarrow> state_matrix_t \<Rightarrow> state_control_matrix_t \<Rightarrow> state_control_matrix_t
     \<Rightarrow> 'i \<Rightarrow> 'i ShotContainer" where
  "construct_members I sd cd timeGrid nr dms m0 m1 m2 ig =
     (let t_start = getShotStartTime timeGrid nr;
          t_shot_end = getShotEndTime timeGrid nr;
          n_steps = double_to_size_t
            (double_add (double_div (double_sub t_shot_end t_start) (dt_sim dms)) (1 / 2));
          ig1 = setLinearSystem_CT I ig;
          full = (costEvaluationType dms = FULL)
      in \<lparr>STATE_DIM = sd, CONTROL_DIM = cd, shotNr = nr, settings = dms,
          integrationCount = 0, costIntegrationCount = 0, sensIntegrationCount = 0,
          costSensIntegrationCount = 0,
          x_history = [], u_history = [], t_history = [],
          dXdSiBack = m0, dXdQiBack = m1, dXdQip1Back = m2,
          cost = 0,
          costGradientSi = setZero_vector sd,
          costGradientQi = setZero_vector cd,
          costGradientQip1 = setZero_vector cd,
          integratorCT = (if full then setCostFunction_CT I ig1 else ig1),
          nSteps = n_steps, tStart = t_start,
          invocations = (if full then [SetLinearSystem, SetCostFunction] else [SetLinearSystem])\<rparr>)"

text \<open>
  The constructor: \<open>Inl\<close> is the exception thrown or the \<open>exit(0)\<close> of the \<open>default\<close>
  label, \<open>Inr\<close> the constructed object.
\<close>

definition construct ::
  "'i SensitivityIntegratorCT \<Rightarrow> nat \<Rightarrow> nat \<Rightarrow> TimeGrid \<Rightarrow> nat \<Rightarrow> DmsSettings
     \<Rightarrow> state_matrix_t \<Rightarrow> state_control_matrix_t \<Rightarrow> state_control_matrix_t
     \<Rightarrow> error + 'i ShotContainer" where
  "construct I sd cd timeGrid nr dms m0 m1 m2 =
     (if nr \<ge> N dms
      then Inl (runtime_error ''Dms Shot Integrator: shot index >= settings.N_ - check your settings.'')
      else (case integrationType dms of
              EULER \<Rightarrow> Inr (construct_members I sd cd timeGrid nr dms m0 m1 m2
                             (create_CT I CT_EULER))
            | RK4 \<Rightarrow> Inr (construct_members I sd cd timeGrid nr dms m0 m1 m2
                           (create_CT I CT_RK4))
            | RK5 \<Rightarrow> Inl (runtime_error ''Currently we do not support adaptive integrators in dms'')
            | IntegrationType_unknown k \<Rightarrow> Inl (exit_process 0)))"

subsection \<open>The four integration methods and reset\<close>

definition integrateShot ::
  "'i SensitivityIntegratorCT \<Rightarrow> OptVectorDms \<Rightarrow> 'i ShotContainer \<Rightarrow> 'i ShotContainer" where
  "integrateShot I w c =
     (if getUpdateCount w \<noteq> integrationCount c then
        let c1 = c\<lparr>integrationCount := getUpdateCount w\<rparr>;
            initState = getOptimizedState w (shotNr c1)
        in call_integrate I initState c1
      else c)"

definition integrateCost ::
  "'i SensitivityIntegratorCT \<Rightarrow> OptVectorDms \<Rightarrow> 'i ShotContainer \<Rightarrow> 'i ShotContainer" where
  "integrateCost I w c =
     (if getUpdateCount w \<noteq> costIntegrationCount c then
        let c1 = c\<lparr>costIntegrationCount := getUpdateCount w\<rparr>;
            c2 = integrateShot I w c1;
            c3 = c2\<lparr>cost := 0\<rparr>
        in call_integrateCost I c3
      else c)"

definition integrateSensitivities ::
  "'i SensitivityIntegratorCT \<Rightarrow> OptVectorDms \<Rightarrow> 'i ShotContainer \<Rightarrow> 'i ShotContainer" where
  "integrateSensitivities I w c =
     (if getUpdateCount w \<noteq> sensIntegrationCount c then
        let c1 = c\<lparr>sensIntegrationCount := getUpdateCount w\<rparr>;
            c2 = integrateShot I w c1;
            c3 = c2\<lparr>dXdSiBack := setIdentity (STATE_DIM c2)\<rparr>;
            c4 = c3\<lparr>dXdQiBack := setZero_matrix (STATE_DIM c3) (CONTROL_DIM c3)\<rparr>;
            c5 = call_linearize I c4;
            c6 = call_integrateSensitivityDX0 I c5;
            c7 = call_integrateSensitivityDU0 I c6
        in if splineType (settings c7) = PIECEWISE_LINEAR then
             call_integrateSensitivityDUf I
               (c7\<lparr>dXdQip1Back := setZero_matrix (STATE_DIM c7) (CONTROL_DIM c7)\<rparr>)
           else c7
      else c)"

definition integrateCostSensitivities ::
  "'i SensitivityIntegratorCT \<Rightarrow> OptVectorDms \<Rightarrow> 'i ShotContainer \<Rightarrow> 'i ShotContainer" where
  "integrateCostSensitivities I w c =
     (if getUpdateCount w \<noteq> costSensIntegrationCount c then
        let c1 = c\<lparr>costSensIntegrationCount := getUpdateCount w\<rparr>;
            c2 = integrateSensitivities I w c1;
            c3 = c2\<lparr>costGradientSi := setZero_vector (STATE_DIM c2)\<rparr>;
            c4 = c3\<lparr>costGradientQi := setZero_vector (CONTROL_DIM c3)\<rparr>;
            c5 = call_integrateCostSensitivityDX0 I c4;
            c6 = call_integrateCostSensitivityDU0 I c5
        in if splineType (settings c6) = PIECEWISE_LINEAR then
             call_integrateCostSensitivityDUf I
               (c6\<lparr>costGradientQip1 := setZero_vector (CONTROL_DIM c6)\<rparr>)
           else c6
      else c)"

definition reset :: "'i SensitivityIntegratorCT \<Rightarrow> 'i ShotContainer \<Rightarrow> 'i ShotContainer" where
  "reset I c =
     (let c1 = c\<lparr>integratorCT := clearStates_CT I (integratorCT c),
                 invocations := invocations c @ [ClearStates]\<rparr>;
          c2 = c1\<lparr>integratorCT := clearSensitivities_CT I (integratorCT c1),
                  invocations := invocations c1 @ [ClearSensitivities]\<rparr>
      in c2\<lparr>integratorCT := clearLinearization_CT I (integratorCT c2),
            invocations := invocations c2 @ [ClearLinearization]\<rparr>)"

subsection \<open>Accessors\<close>

text \<open>
  An accessor returns its value together with the container it leaves behind.
  \<open>std::vector::back()\<close> has no defined result on an empty vector, so the two accessors
  that call it return \<open>None\<close> there.
\<close>

definition getStateIntegrated :: "'i ShotContainer \<Rightarrow> state_vector_t option \<times> 'i ShotContainer" where
  "getStateIntegrated c = (if x_history c = [] then None else Some (last (x_history c)), c)"

definition getIntegrationTimeFinal :: "'i ShotContainer \<Rightarrow> real option \<times> 'i ShotContainer" where
  "getIntegrationTimeFinal c = (if t_history c = [] then None else Some (last (t_history c)), c)"

definition getdXdSiIntegrated :: "'i ShotContainer \<Rightarrow> state_matrix_t \<times> 'i ShotContainer" where
  "getdXdSiIntegrated c = (dXdSiBack c, c)"

definition getdXdQiIntegrated :: "'i ShotContainer \<Rightarrow> state_control_matrix_t \<times> 'i ShotContainer" where
  "getdXdQiIntegrated c = (dXdQiBack c, c)"

definition getdXdQip1Integrated :: "'i ShotContainer \<Rightarrow> state_control_matrix_t \<times> 'i ShotContainer" where
  "getdXdQip1Integrated c = (dXdQip1Back c, c)"

definition getXHistory :: "'i ShotContainer \<Rightarrow> state_vector_array_t \<times> 'i ShotContainer" where
  "getXHistory c = (x_history c, c)"

text \<open>The loop of \<open>getUHistory\<close>, over the time stamps still to visit.\<close>

fun getUHistory_loop ::
  "SplinerBase \<Rightarrow> time_array_t \<Rightarrow> 'i ShotContainer \<Rightarrow> 'i ShotContainer" where
  "getUHistory_loop controlSpliner [] c = c"
| "getUHistory_loop controlSpliner (t # ts) c =
     getUHistory_loop controlSpliner ts
       (c\<lparr>u_history := u_history c @ [evalSpline controlSpliner t (shotNr c)]\<rparr>)"

definition getUHistory ::
  "SplinerBase \<Rightarrow> 'i ShotContainer \<Rightarrow> control_vector_array_t \<times> 'i ShotContainer" where
  "getUHistory controlSpliner c =
     (let c1 = c\<lparr>u_history := []\<rparr>;
          c2 = getUHistory_loop controlSpliner (t_history c1) c1
      in (u_history c2, c2))"

definition getTHistory :: "'i ShotContainer \<Rightarrow> time_array_t \<times> 'i ShotContainer" where
  "getTHistory c = (t_history c, c)"

definition getCostIntegrated :: "'i ShotContainer \<Rightarrow> real \<times> 'i ShotContainer" where
  "getCostIntegrated c = (cost c, c)"

definition getdLdSiIntegrated :: "'i ShotContainer \<Rightarrow> state_vector_t \<times> 'i ShotContainer" where
  "getdLdSiIntegrated c = (costGradientSi c, c)"

definition getdLdQiIntegrated :: "'i ShotContainer \<Rightarrow> control_vector_t \<times> 'i ShotContainer" where
  "getdLdQiIntegrated c = (costGradientQi c, c)"

definition getdLdQip1Integrated :: "'i ShotContainer \<Rightarrow> control_vector_t \<times> 'i ShotContainer" where
  "getdLdQip1Integrated c = (costGradientQip1 c, c)"

subsection \<open>Sequences of calls\<close>

text \<open>
  The four integration methods under one name, the counter each of them keeps, and a run
  of calls: each call is made with the optimisation vector as it is at that moment, which
  does not change while the call runs.
\<close>

datatype Tier = Shot | Cost | Sensitivities | CostSensitivities

fun runTier ::
  "'i SensitivityIntegratorCT \<Rightarrow> OptVectorDms \<Rightarrow> Tier \<Rightarrow> 'i ShotContainer \<Rightarrow> 'i ShotContainer" where
  "runTier I w Shot c = integrateShot I w c"
| "runTier I w Cost c = integrateCost I w c"
| "runTier I w Sensitivities c = integrateSensitivities I w c"
| "runTier I w CostSensitivities c = integrateCostSensitivities I w c"

fun tierCount :: "Tier \<Rightarrow> 'i ShotContainer \<Rightarrow> size_t" where
  "tierCount Shot c = integrationCount c"
| "tierCount Cost c = costIntegrationCount c"
| "tierCount Sensitivities c = sensIntegrationCount c"
| "tierCount CostSensitivities c = costSensIntegrationCount c"

fun runCalls ::
  "'i SensitivityIntegratorCT \<Rightarrow> (Tier \<times> OptVectorDms) list \<Rightarrow> 'i ShotContainer \<Rightarrow> 'i ShotContainer" where
  "runCalls I [] c = c"
| "runCalls I ((t, w) # calls) c = runCalls I calls (runTier I w t c)"

subsection \<open>Notions used in the properties\<close>

text \<open>The outputs the container caches, and the four counters.\<close>

definition cachedOutputs ::
  "'i ShotContainer \<Rightarrow> state_vector_array_t \<times> time_array_t \<times> real \<times> state_matrix_t
     \<times> state_control_matrix_t \<times> state_control_matrix_t
     \<times> state_vector_t \<times> control_vector_t \<times> control_vector_t" where
  "cachedOutputs c =
     (x_history c, t_history c, cost c, dXdSiBack c, dXdQiBack c, dXdQip1Back c,
      costGradientSi c, costGradientQi c, costGradientQip1 c)"

definition counters :: "'i ShotContainer \<Rightarrow> size_t \<times> size_t \<times> size_t \<times> size_t" where
  "counters c =
     (integrationCount c, costIntegrationCount c, sensIntegrationCount c,
      costSensIntegrationCount c)"

text \<open>The four methods called in order.\<close>

definition fullChain ::
  "'i SensitivityIntegratorCT \<Rightarrow> OptVectorDms \<Rightarrow> 'i ShotContainer \<Rightarrow> 'i ShotContainer" where
  "fullChain I w c =
     integrateCostSensitivities I w (integrateSensitivities I w (integrateCost I w (integrateShot I w c)))"

text \<open>
  The statements of \<open>integrateSensitivities\<close> and of \<open>integrateCostSensitivities\<close> that
  follow the call of the method they depend on, and the calls on the integrator these
  statements are expected to make.
\<close>

definition sensitivitiesBody :: "'i SensitivityIntegratorCT \<Rightarrow> 'i ShotContainer \<Rightarrow> 'i ShotContainer" where
  "sensitivitiesBody I c2 =
     (let c3 = c2\<lparr>dXdSiBack := setIdentity (STATE_DIM c2)\<rparr>;
          c4 = c3\<lparr>dXdQiBack := setZero_matrix (STATE_DIM c3) (CONTROL_DIM c3)\<rparr>;
          c5 = call_linearize I c4;
          c6 = call_integrateSensitivityDX0 I c5;
          c7 = call_integrateSensitivityDU0 I c6
      in if splineType (settings c7) = PIECEWISE_LINEAR then
           call_integrateSensitivityDUf I
             (c7\<lparr>dXdQip1Back := setZero_matrix (STATE_DIM c7) (CONTROL_DIM c7)\<rparr>)
         else c7)"

definition costSensitivitiesBody ::
  "'i SensitivityIntegratorCT \<Rightarrow> 'i ShotContainer \<Rightarrow> 'i ShotContainer" where
  "costSensitivitiesBody I c2 =
     (let c3 = c2\<lparr>costGradientSi := setZero_vector (STATE_DIM c2)\<rparr>;
          c4 = c3\<lparr>costGradientQi := setZero_vector (CONTROL_DIM c3)\<rparr>;
          c5 = call_integrateCostSensitivityDX0 I c4;
          c6 = call_integrateCostSensitivityDU0 I c5
      in if splineType (settings c6) = PIECEWISE_LINEAR then
           call_integrateCostSensitivityDUf I
             (c6\<lparr>costGradientQip1 := setZero_vector (CONTROL_DIM c6)\<rparr>)
         else c6)"

definition sensitivityCalls :: "'i ShotContainer \<Rightarrow> IntegratorCall list" where
  "sensitivityCalls c =
     [Linearize,
      IntegrateSensitivityDX0 (setIdentity (STATE_DIM c)),
      IntegrateSensitivityDU0 (setZero_matrix (STATE_DIM c) (CONTROL_DIM c))]
     @ (if splineType (settings c) = PIECEWISE_LINEAR
        then [IntegrateSensitivityDUf (setZero_matrix (STATE_DIM c) (CONTROL_DIM c))] else [])"

definition costSensitivityCalls :: "'i ShotContainer \<Rightarrow> IntegratorCall list" where
  "costSensitivityCalls c =
     [IntegrateCostSensitivityDX0 (setZero_vector (STATE_DIM c)),
      IntegrateCostSensitivityDU0 (setZero_vector (CONTROL_DIM c))]
     @ (if splineType (settings c) = PIECEWISE_LINEAR
        then [IntegrateCostSensitivityDUf (setZero_vector (CONTROL_DIM c))] else [])"

text \<open>
  The results of the integrator's sensitivity integrations when they start from the seeds:
  for the state sensitivities after linearisation, with the identity for the initial state
  and zero for the controls; for the cost gradients with zero. Each is the pair of the new
  integrator state and the integrated value, for a container \<open>c\<close> on which the method
  depended on has run.
\<close>

definition seededDX0 :: "'i SensitivityIntegratorCT \<Rightarrow> 'i ShotContainer \<Rightarrow> 'i \<times> state_matrix_t" where
  "seededDX0 I c =
     integrateSensitivityDX0_CT I (linearize_CT I (integratorCT c)) (setIdentity (STATE_DIM c))
       (tStart c) (nSteps c) (dt_sim (settings c))"

definition seededDU0 ::
  "'i SensitivityIntegratorCT \<Rightarrow> 'i ShotContainer \<Rightarrow> 'i \<times> state_control_matrix_t" where
  "seededDU0 I c =
     integrateSensitivityDU0_CT I (fst (seededDX0 I c))
       (setZero_matrix (STATE_DIM c) (CONTROL_DIM c)) (tStart c) (nSteps c) (dt_sim (settings c))"

definition seededDUf ::
  "'i SensitivityIntegratorCT \<Rightarrow> 'i ShotContainer \<Rightarrow> 'i \<times> state_control_matrix_t" where
  "seededDUf I c =
     integrateSensitivityDUf_CT I (fst (seededDU0 I c))
       (setZero_matrix (STATE_DIM c) (CONTROL_DIM c)) (tStart c) (nSteps c) (dt_sim (settings c))"

definition seededCostDX0 :: "'i SensitivityIntegratorCT \<Rightarrow> 'i ShotContainer \<Rightarrow> 'i \<times> state_vector_t" where
  "seededCostDX0 I c =
     integrateCostSensitivityDX0_CT I (integratorCT c) (setZero_vector (STATE_DIM c))
       (tStart c) (nSteps c) (dt_sim (settings c))"

definition seededCostDU0 ::
  "'i SensitivityIntegratorCT \<Rightarrow> 'i ShotContainer \<Rightarrow> 'i \<times> control_vector_t" where
  "seededCostDU0 I c =
     integrateCostSensitivityDU0_CT I (fst (seededCostDX0 I c)) (setZero_vector (CONTROL_DIM c))
       (tStart c) (nSteps c) (dt_sim (settings c))"

definition seededCostDUf ::
  "'i SensitivityIntegratorCT \<Rightarrow> 'i ShotContainer \<Rightarrow> 'i \<times> control_vector_t" where
  "seededCostDUf I c =
     integrateCostSensitivityDUf_CT I (fst (seededCostDU0 I c)) (setZero_vector (CONTROL_DIM c))
       (tStart c) (nSteps c) (dt_sim (settings c))"

fun isIntegrateSensitivityDUf :: "IntegratorCall \<Rightarrow> bool" where
  "isIntegrateSensitivityDUf (IntegrateSensitivityDUf m) = True"
| "isIntegrateSensitivityDUf call = False"

fun isIntegrateCostSensitivityDUf :: "IntegratorCall \<Rightarrow> bool" where
  "isIntegrateCostSensitivityDUf (IntegrateCostSensitivityDUf g) = True"
| "isIntegrateCostSensitivityDUf call = False"

text \<open>
  Freshness at the update count \<open>v\<close> is downward closed along the dependencies when a
  method whose counter is \<open>v\<close> has the methods it depends on at \<open>v\<close> too. The counters are
  ordered up to \<open>m\<close> when each is at most the counter of the method it depends on, and the
  state integration's counter is at most \<open>m\<close>.
\<close>

definition downwardClosed :: "size_t \<Rightarrow> 'i ShotContainer \<Rightarrow> bool" where
  "downwardClosed v c \<longleftrightarrow>
     (costSensIntegrationCount c = v \<longrightarrow> sensIntegrationCount c = v)
   \<and> (sensIntegrationCount c = v \<longrightarrow> integrationCount c = v)
   \<and> (costIntegrationCount c = v \<longrightarrow> integrationCount c = v)"

definition countersOrdered :: "size_t \<Rightarrow> 'i ShotContainer \<Rightarrow> bool" where
  "countersOrdered m c \<longleftrightarrow>
     costSensIntegrationCount c \<le> sensIntegrationCount c
   \<and> sensIntegrationCount c \<le> integrationCount c
   \<and> costIntegrationCount c \<le> integrationCount c
   \<and> integrationCount c \<le> m"

text \<open>
  What the container cannot see of the integrator. \<open>view i\<close> stands for the part of the
  integrator state that linearisation and the sensitivity integrations read and write. A
  method of the integrator respects the view when two states with the same view give the
  same result and states with the same view again. The integrator is transparent for the
  cost when its cost integration leaves the view as it is and the other methods respect it.
\<close>

definition respectsView ::
  "('i \<Rightarrow> 'v) \<Rightarrow> ('i \<Rightarrow> 'a \<Rightarrow> real \<Rightarrow> size_t \<Rightarrow> real \<Rightarrow> 'i \<times> 'a) \<Rightarrow> bool" where
  "respectsView view f \<longleftrightarrow>
     (\<forall>i j x t n d. view i = view j \<longrightarrow>
        snd (f i x t n d) = snd (f j x t n d)
        \<and> view (fst (f i x t n d)) = view (fst (f j x t n d)))"

definition sensitivitiesRespectView :: "'i SensitivityIntegratorCT \<Rightarrow> ('i \<Rightarrow> 'v) \<Rightarrow> bool" where
  "sensitivitiesRespectView I view \<longleftrightarrow>
     (\<forall>i j. view i = view j \<longrightarrow> view (linearize_CT I i) = view (linearize_CT I j))
   \<and> respectsView view (integrateSensitivityDX0_CT I)
   \<and> respectsView view (integrateSensitivityDU0_CT I)
   \<and> respectsView view (integrateSensitivityDUf_CT I)
   \<and> respectsView view (integrateCostSensitivityDX0_CT I)
   \<and> respectsView view (integrateCostSensitivityDU0_CT I)
   \<and> respectsView view (integrateCostSensitivityDUf_CT I)"

definition costTransparent :: "'i SensitivityIntegratorCT \<Rightarrow> ('i \<Rightarrow> 'v) \<Rightarrow> bool" where
  "costTransparent I view \<longleftrightarrow>
     (\<forall>i a t n d. view (fst (integrateCost_CT I i a t n d)) = view i)
   \<and> sensitivitiesRespectView I view"

text \<open>
  Two containers agree up to the cost when they differ at most in the counters, the cost, the
  control history, the list of calls and the part of the integrator outside the view.
\<close>

definition agreeUpToCost :: "('i \<Rightarrow> 'v) \<Rightarrow> 'i ShotContainer \<Rightarrow> 'i ShotContainer \<Rightarrow> bool" where
  "agreeUpToCost view a b \<longleftrightarrow>
     STATE_DIM a = STATE_DIM b \<and> CONTROL_DIM a = CONTROL_DIM b \<and> shotNr a = shotNr b
   \<and> settings a = settings b \<and> nSteps a = nSteps b \<and> tStart a = tStart b
   \<and> x_history a = x_history b \<and> t_history a = t_history b
   \<and> dXdSiBack a = dXdSiBack b \<and> dXdQiBack a = dXdQiBack b \<and> dXdQip1Back a = dXdQip1Back b
   \<and> costGradientSi a = costGradientSi b \<and> costGradientQi a = costGradientQi b
   \<and> costGradientQip1 a = costGradientQip1 b
   \<and> view (integratorCT a) = view (integratorCT b)"

text \<open>The state history, the sensitivity matrices and the cost gradients.\<close>

definition sensitivityOutputs ::
  "'i ShotContainer \<Rightarrow> state_vector_array_t \<times> time_array_t \<times> state_matrix_t
     \<times> state_control_matrix_t \<times> state_control_matrix_t
     \<times> state_vector_t \<times> control_vector_t \<times> control_vector_t" where
  "sensitivityOutputs c =
     (x_history c, t_history c, dXdSiBack c, dXdQiBack c, dXdQip1Back c,
      costGradientSi c, costGradientQi c, costGradientQip1 c)"

subsection \<open>A small instance\<close>

text \<open>
  An integrator for concrete runs. Its state is the number of steps of the trajectory it
  holds and the cost it integrated last. It keeps the state constant along the shot,
  returns every sensitivity argument as it got it, and adds 1 to the cost it is given.
\<close>

definition exampleIntegrator :: "(nat \<times> real) SensitivityIntegratorCT" where
  "exampleIntegrator =
     \<lparr>create_CT = (\<lambda>ty. (0, 0)),
      setLinearSystem_CT = (\<lambda>i. i),
      setCostFunction_CT = (\<lambda>i. i),
      integrate_CT =
        (\<lambda>i x t n d xs ts. ((unat n, snd i), replicate (Suc (unat n)) x, replicate (Suc (unat n)) t)),
      integrateCost_CT = (\<lambda>i a t n d. ((fst i, a + 1), a + 1)),
      linearize_CT = (\<lambda>i. i),
      integrateSensitivityDX0_CT = (\<lambda>i m t n d. (i, m)),
      integrateSensitivityDU0_CT = (\<lambda>i m t n d. (i, m)),
      integrateSensitivityDUf_CT = (\<lambda>i m t n d. (i, m)),
      integrateCostSensitivityDX0_CT = (\<lambda>i g t n d. (i, g)),
      integrateCostSensitivityDU0_CT = (\<lambda>i g t n d. (i, g)),
      integrateCostSensitivityDUf_CT = (\<lambda>i g t n d. (i, g)),
      clearStates_CT = (\<lambda>i. (0, snd i)),
      clearSensitivities_CT = (\<lambda>i. i),
      clearLinearization_CT = (\<lambda>i. i)\<rparr>"

definition exampleGrid :: TimeGrid where
  "exampleGrid = \<lparr>getShotStartTime = (\<lambda>k. real k), getShotEndTime = (\<lambda>k. real k + 1)\<rparr>"



text \<open>A time grid whose shots end before they start, at \<open>-1.5\<close>.\<close>

definition backwardGrid :: TimeGrid where
  "backwardGrid = \<lparr>getShotStartTime = (\<lambda>k. 0), getShotEndTime = (\<lambda>k. - (3 / 2))\<rparr>"

definition exampleSettings :: DmsSettings where
  "exampleSettings =
     \<lparr>N = 2, dt_sim = 1, integrationType = RK4, splineType = PIECEWISE_LINEAR,
      costEvaluationType = FULL\<rparr>"

text \<open>The optimisation vector at update count \<open>k\<close>, every shot starting at \<open>[k, 0]\<close>.\<close>

definition exampleVector :: "nat \<Rightarrow> OptVectorDms" where
  "exampleVector k = \<lparr>getUpdateCount = of_nat k, getOptimizedState = (\<lambda>nr. [real k, 0])\<rparr>"

text \<open>The container of shot 0, state dimension 2 and control dimension 1, as constructed.\<close>

definition exampleContainer :: "(nat \<times> real) ShotContainer" where
  "exampleContainer =
     \<lparr>STATE_DIM = 2, CONTROL_DIM = 1, shotNr = 0, settings = exampleSettings,
      integrationCount = 0, costIntegrationCount = 0, sensIntegrationCount = 0,
      costSensIntegrationCount = 0,
      x_history = [], u_history = [], t_history = [],
      dXdSiBack = [], dXdQiBack = [], dXdQip1Back = [],
      cost = 0, costGradientSi = [0, 0], costGradientQi = [0], costGradientQip1 = [0],
      integratorCT = (0, 0), nSteps = 1, tStart = 0,
      invocations = [SetLinearSystem, SetCostFunction]\<rparr>"

section \<open>Properties\<close>

subsection \<open>Rounding to double precision\<close>


lemma pow2_pos [simp]: "0 < pow2 e"
  by (simp add: pow2_def)

lemma pow2_nat: "0 \<le> e \<Longrightarrow> pow2 e = 2 ^ nat e"
  by (simp add: pow2_def)

lemma pow2_mult_nat: "- int n \<le> e \<Longrightarrow> pow2 e * 2 ^ n = 2 ^ nat (e + int n)"
proof (cases "0 \<le> e")
  case True
  then show ?thesis by (simp add: pow2_def nat_add_distrib power_add)
next
  case False
  assume "- int n \<le> e"
  with False have "n = nat (- e) + nat (e + int n)" by linarith
  then have "(2::real) ^ n = 2 ^ nat (- e) * 2 ^ nat (e + int n)"
    by (metis power_add)
  with False show ?thesis by (simp add: pow2_def)
qed

lemma pow2_mono: "a \<le> b \<Longrightarrow> pow2 a \<le> pow2 b"
proof -
  assume ab: "a \<le> b"
  obtain n where n: "- int n \<le> a" by (metis minus_le_iff nat_le_iff order_refl)
  then have nb: "- int n \<le> b" using ab by linarith
  have "pow2 a * 2 ^ n \<le> pow2 b * 2 ^ n"
    unfolding pow2_mult_nat [OF n] pow2_mult_nat [OF nb]
    using ab by (intro power_increasing) auto
  then show ?thesis by simp
qed



lemma pow2_nonneg [simp]: "0 \<le> pow2 e"
  using pow2_pos [of e] by linarith

lemma pow2_nonzero [simp]: "pow2 e \<noteq> 0"
  using pow2_pos [of e] by linarith


lemma subnormal_scale_ge: "1022 \<le> int subnormal_scale"
  by (simp add: subnormal_scale_def)

lemma floor_less_power: "(y::real) < 2 ^ k \<Longrightarrow> \<lfloor>y\<rfloor> < 2 ^ k"
  by (metis floor_less_iff of_int_numeral of_int_power)

lemma power_le_floor: "2 ^ k \<le> (y::real) \<Longrightarrow> 2 ^ k \<le> \<lfloor>y\<rfloor>"
  by (metis le_floor_iff of_int_numeral of_int_power)

lemma exponent64_eq:
  assumes lo: "pow2 e \<le> \<bar>x\<bar>" and hi: "\<bar>x\<bar> < pow2 (e + 1)" and e: "- 1022 \<le> e"
  shows "exponent64 x = e"
proof -
  let ?m = subnormal_scale
  let ?n = "\<lfloor>\<bar>x\<bar> * 2 ^ ?m\<rfloor>"
  have a: "- int ?m \<le> e" "- int ?m \<le> e + 1"
    using e subnormal_scale_ge by linarith+
  have "pow2 e * 2 ^ ?m \<le> \<bar>x\<bar> * 2 ^ ?m"
    using lo by simp
  then have "(2::real) ^ nat (e + int ?m) \<le> \<bar>x\<bar> * 2 ^ ?m"
    using pow2_mult_nat [OF a(1)] by simp
  then have l: "2 ^ nat (e + int ?m) \<le> ?n"
    by (rule power_le_floor)
  have "\<bar>x\<bar> * 2 ^ ?m < pow2 (e + 1) * 2 ^ ?m"
    using hi by simp
  then have "\<bar>x\<bar> * 2 ^ ?m < 2 ^ nat (e + 1 + int ?m)"
    using pow2_mult_nat [OF a(2)] by simp
  then have h: "?n < 2 ^ nat (e + 1 + int ?m)"
    by (rule floor_less_power)
  have "bitlen ?n \<le> e + 1 + int ?m"
    using h a by (simp add: bitlen_le_iff_power)
  moreover have "nat (e + 1 + int ?m) - 1 = nat (e + int ?m)"
    using a by linarith
  then have "e + 1 + int ?m \<le> bitlen ?n"
    using l by (simp add: bitlen_ge_iff_power)
  ultimately show ?thesis
    using e by (simp add: exponent64_def)
qed




lemma round64_eval:
  assumes "pow2 e \<le> \<bar>x\<bar>" and "\<bar>x\<bar> < pow2 (e + 1)" and "- 1022 \<le> e"
    and "round_half_even (x / pow2 (e - 52)) = m"
    and "\<bar>of_int m * pow2 (e - 52)\<bar> < 2 ^ 1024"
  shows "round64 x = Finite (of_int m * pow2 (e - 52))"
proof -
  have "exponent64 x = e"
    using assms(1-3) by (rule exponent64_eq)
  then show ?thesis
    unfolding round64_def Let_def using assms(4,5) by (simp only: if_True)
qed

lemma round64_one: "round64 1 = Finite 1"
  using round64_eval [where x = 1 and e = 0 and m = "2 ^ 52"]
  by (simp add: pow2_def round_half_even_def Let_def)

lemma round64_half_more: "round64 (3 / 2) = Finite (3 / 2)"
  using round64_eval [where x = "3 / 2" and e = 0 and m = "3 * 2 ^ 51"]
  by (simp add: pow2_def round_half_even_def Let_def)




lemma round64_neg: "round64 (- (3 / 2)) = Finite (- (3 / 2))"
  using round64_eval [where x = "- (3 / 2)" and e = 0 and m = "- (3 * 2 ^ 51)"]
  by (simp add: pow2_def round_half_even_def Let_def)

lemma round64_minus_one: "round64 (- 1) = Finite (- 1)"
  using round64_eval [where x = "- 1" and e = 0 and m = "- (2 ^ 52)"]
  by (simp add: pow2_def round_half_even_def Let_def)

lemma truncate_double_minus_one: "truncate_double (- 1) = - 1"
proof -
  have "\<lceil>- 1 :: real\<rceil> = - 1"
    by (rule ceiling_unique) simp_all
  then show ?thesis
    by (simp add: truncate_double_def)
qed

lemma step_count_unit:
  "double_to_size_t (double_add (double_div (double_sub 1 0) 1) (1 / 2)) = 1"
  by (simp add: double_sub_def double_div_def double_add_def round64_one round64_half_more
      double_to_size_t_def truncate_double_def)


lemma step_count_negative:
  "unat (double_to_size_t (double_add (double_div (double_sub (- (3 / 2)) 0) 1) (1 / 2)))
     = 18446744073709551615"
proof -
  have "double_to_size_t (double_add (double_div (double_sub (- (3 / 2)) 0) 1) (1 / 2)) = - 1"
    by (simp add: double_sub_def double_div_def double_add_def round64_neg round64_minus_one
        double_to_size_t_def truncate_double_minus_one)
  then show ?thesis
    by (simp add: unsigned_minus_1_eq_mask mask_eq_exp_minus_1)
qed


subsection \<open>What a call on the integrator leaves and what it writes\<close>

lemma call_integrate_keeps [simp]:
  "STATE_DIM (call_integrate I x c) = STATE_DIM c"
  "CONTROL_DIM (call_integrate I x c) = CONTROL_DIM c"
  "shotNr (call_integrate I x c) = shotNr c"
  "settings (call_integrate I x c) = settings c"
  "integrationCount (call_integrate I x c) = integrationCount c"
  "costIntegrationCount (call_integrate I x c) = costIntegrationCount c"
  "sensIntegrationCount (call_integrate I x c) = sensIntegrationCount c"
  "costSensIntegrationCount (call_integrate I x c) = costSensIntegrationCount c"
  "u_history (call_integrate I x c) = u_history c"
  "dXdSiBack (call_integrate I x c) = dXdSiBack c"
  "dXdQiBack (call_integrate I x c) = dXdQiBack c"
  "dXdQip1Back (call_integrate I x c) = dXdQip1Back c"
  "cost (call_integrate I x c) = cost c"
  "costGradientSi (call_integrate I x c) = costGradientSi c"
  "costGradientQi (call_integrate I x c) = costGradientQi c"
  "costGradientQip1 (call_integrate I x c) = costGradientQip1 c"
  "nSteps (call_integrate I x c) = nSteps c"
  "tStart (call_integrate I x c) = tStart c"
  by (simp_all add: call_integrate_def Let_def)

lemma call_integrate_writes [simp]:
  "x_history (call_integrate I x c) = fst (snd (integrate_CT I (integratorCT c) x (tStart c) (nSteps c) (dt_sim (settings c)) (x_history c) (t_history c)))"
  "t_history (call_integrate I x c) = snd (snd (integrate_CT I (integratorCT c) x (tStart c) (nSteps c) (dt_sim (settings c)) (x_history c) (t_history c)))"
  "integratorCT (call_integrate I x c) = fst (integrate_CT I (integratorCT c) x (tStart c) (nSteps c) (dt_sim (settings c)) (x_history c) (t_history c))"
  "invocations (call_integrate I x c) = invocations c @ [Integrate x]"
  by (simp_all add: call_integrate_def Let_def)

lemma call_integrateCost_keeps [simp]:
  "STATE_DIM (call_integrateCost I c) = STATE_DIM c"
  "CONTROL_DIM (call_integrateCost I c) = CONTROL_DIM c"
  "shotNr (call_integrateCost I c) = shotNr c"
  "settings (call_integrateCost I c) = settings c"
  "integrationCount (call_integrateCost I c) = integrationCount c"
  "costIntegrationCount (call_integrateCost I c) = costIntegrationCount c"
  "sensIntegrationCount (call_integrateCost I c) = sensIntegrationCount c"
  "costSensIntegrationCount (call_integrateCost I c) = costSensIntegrationCount c"
  "x_history (call_integrateCost I c) = x_history c"
  "u_history (call_integrateCost I c) = u_history c"
  "t_history (call_integrateCost I c) = t_history c"
  "dXdSiBack (call_integrateCost I c) = dXdSiBack c"
  "dXdQiBack (call_integrateCost I c) = dXdQiBack c"
  "dXdQip1Back (call_integrateCost I c) = dXdQip1Back c"
  "costGradientSi (call_integrateCost I c) = costGradientSi c"
  "costGradientQi (call_integrateCost I c) = costGradientQi c"
  "costGradientQip1 (call_integrateCost I c) = costGradientQip1 c"
  "nSteps (call_integrateCost I c) = nSteps c"
  "tStart (call_integrateCost I c) = tStart c"
  by (simp_all add: call_integrateCost_def Let_def)

lemma call_integrateCost_writes [simp]:
  "cost (call_integrateCost I c) = snd (integrateCost_CT I (integratorCT c) (cost c) (tStart c) (nSteps c) (dt_sim (settings c)))"
  "integratorCT (call_integrateCost I c) = fst (integrateCost_CT I (integratorCT c) (cost c) (tStart c) (nSteps c) (dt_sim (settings c)))"
  "invocations (call_integrateCost I c) = invocations c @ [IntegrateCost (cost c)]"
  by (simp_all add: call_integrateCost_def Let_def)

lemma call_linearize_keeps [simp]:
  "STATE_DIM (call_linearize I c) = STATE_DIM c"
  "CONTROL_DIM (call_linearize I c) = CONTROL_DIM c"
  "shotNr (call_linearize I c) = shotNr c"
  "settings (call_linearize I c) = settings c"
  "integrationCount (call_linearize I c) = integrationCount c"
  "costIntegrationCount (call_linearize I c) = costIntegrationCount c"
  "sensIntegrationCount (call_linearize I c) = sensIntegrationCount c"
  "costSensIntegrationCount (call_linearize I c) = costSensIntegrationCount c"
  "x_history (call_linearize I c) = x_history c"
  "u_history (call_linearize I c) = u_history c"
  "t_history (call_linearize I c) = t_history c"
  "dXdSiBack (call_linearize I c) = dXdSiBack c"
  "dXdQiBack (call_linearize I c) = dXdQiBack c"
  "dXdQip1Back (call_linearize I c) = dXdQip1Back c"
  "cost (call_linearize I c) = cost c"
  "costGradientSi (call_linearize I c) = costGradientSi c"
  "costGradientQi (call_linearize I c) = costGradientQi c"
  "costGradientQip1 (call_linearize I c) = costGradientQip1 c"
  "nSteps (call_linearize I c) = nSteps c"
  "tStart (call_linearize I c) = tStart c"
  by (simp_all add: call_linearize_def Let_def)

lemma call_linearize_writes [simp]:
  "integratorCT (call_linearize I c) = linearize_CT I (integratorCT c)"
  "invocations (call_linearize I c) = invocations c @ [Linearize]"
  by (simp_all add: call_linearize_def Let_def)

lemma call_integrateSensitivityDX0_keeps [simp]:
  "STATE_DIM (call_integrateSensitivityDX0 I c) = STATE_DIM c"
  "CONTROL_DIM (call_integrateSensitivityDX0 I c) = CONTROL_DIM c"
  "shotNr (call_integrateSensitivityDX0 I c) = shotNr c"
  "settings (call_integrateSensitivityDX0 I c) = settings c"
  "integrationCount (call_integrateSensitivityDX0 I c) = integrationCount c"
  "costIntegrationCount (call_integrateSensitivityDX0 I c) = costIntegrationCount c"
  "sensIntegrationCount (call_integrateSensitivityDX0 I c) = sensIntegrationCount c"
  "costSensIntegrationCount (call_integrateSensitivityDX0 I c) = costSensIntegrationCount c"
  "x_history (call_integrateSensitivityDX0 I c) = x_history c"
  "u_history (call_integrateSensitivityDX0 I c) = u_history c"
  "t_history (call_integrateSensitivityDX0 I c) = t_history c"
  "dXdQiBack (call_integrateSensitivityDX0 I c) = dXdQiBack c"
  "dXdQip1Back (call_integrateSensitivityDX0 I c) = dXdQip1Back c"
  "cost (call_integrateSensitivityDX0 I c) = cost c"
  "costGradientSi (call_integrateSensitivityDX0 I c) = costGradientSi c"
  "costGradientQi (call_integrateSensitivityDX0 I c) = costGradientQi c"
  "costGradientQip1 (call_integrateSensitivityDX0 I c) = costGradientQip1 c"
  "nSteps (call_integrateSensitivityDX0 I c) = nSteps c"
  "tStart (call_integrateSensitivityDX0 I c) = tStart c"
  by (simp_all add: call_integrateSensitivityDX0_def Let_def)

lemma call_integrateSensitivityDX0_writes [simp]:
  "dXdSiBack (call_integrateSensitivityDX0 I c) = snd (integrateSensitivityDX0_CT I (integratorCT c) (dXdSiBack c) (tStart c) (nSteps c) (dt_sim (settings c)))"
  "integratorCT (call_integrateSensitivityDX0 I c) = fst (integrateSensitivityDX0_CT I (integratorCT c) (dXdSiBack c) (tStart c) (nSteps c) (dt_sim (settings c)))"
  "invocations (call_integrateSensitivityDX0 I c) = invocations c @ [IntegrateSensitivityDX0 (dXdSiBack c)]"
  by (simp_all add: call_integrateSensitivityDX0_def Let_def)

lemma call_integrateSensitivityDU0_keeps [simp]:
  "STATE_DIM (call_integrateSensitivityDU0 I c) = STATE_DIM c"
  "CONTROL_DIM (call_integrateSensitivityDU0 I c) = CONTROL_DIM c"
  "shotNr (call_integrateSensitivityDU0 I c) = shotNr c"
  "settings (call_integrateSensitivityDU0 I c) = settings c"
  "integrationCount (call_integrateSensitivityDU0 I c) = integrationCount c"
  "costIntegrationCount (call_integrateSensitivityDU0 I c) = costIntegrationCount c"
  "sensIntegrationCount (call_integrateSensitivityDU0 I c) = sensIntegrationCount c"
  "costSensIntegrationCount (call_integrateSensitivityDU0 I c) = costSensIntegrationCount c"
  "x_history (call_integrateSensitivityDU0 I c) = x_history c"
  "u_history (call_integrateSensitivityDU0 I c) = u_history c"
  "t_history (call_integrateSensitivityDU0 I c) = t_history c"
  "dXdSiBack (call_integrateSensitivityDU0 I c) = dXdSiBack c"
  "dXdQip1Back (call_integrateSensitivityDU0 I c) = dXdQip1Back c"
  "cost (call_integrateSensitivityDU0 I c) = cost c"
  "costGradientSi (call_integrateSensitivityDU0 I c) = costGradientSi c"
  "costGradientQi (call_integrateSensitivityDU0 I c) = costGradientQi c"
  "costGradientQip1 (call_integrateSensitivityDU0 I c) = costGradientQip1 c"
  "nSteps (call_integrateSensitivityDU0 I c) = nSteps c"
  "tStart (call_integrateSensitivityDU0 I c) = tStart c"
  by (simp_all add: call_integrateSensitivityDU0_def Let_def)

lemma call_integrateSensitivityDU0_writes [simp]:
  "dXdQiBack (call_integrateSensitivityDU0 I c) = snd (integrateSensitivityDU0_CT I (integratorCT c) (dXdQiBack c) (tStart c) (nSteps c) (dt_sim (settings c)))"
  "integratorCT (call_integrateSensitivityDU0 I c) = fst (integrateSensitivityDU0_CT I (integratorCT c) (dXdQiBack c) (tStart c) (nSteps c) (dt_sim (settings c)))"
  "invocations (call_integrateSensitivityDU0 I c) = invocations c @ [IntegrateSensitivityDU0 (dXdQiBack c)]"
  by (simp_all add: call_integrateSensitivityDU0_def Let_def)

lemma call_integrateSensitivityDUf_keeps [simp]:
  "STATE_DIM (call_integrateSensitivityDUf I c) = STATE_DIM c"
  "CONTROL_DIM (call_integrateSensitivityDUf I c) = CONTROL_DIM c"
  "shotNr (call_integrateSensitivityDUf I c) = shotNr c"
  "settings (call_integrateSensitivityDUf I c) = settings c"
  "integrationCount (call_integrateSensitivityDUf I c) = integrationCount c"
  "costIntegrationCount (call_integrateSensitivityDUf I c) = costIntegrationCount c"
  "sensIntegrationCount (call_integrateSensitivityDUf I c) = sensIntegrationCount c"
  "costSensIntegrationCount (call_integrateSensitivityDUf I c) = costSensIntegrationCount c"
  "x_history (call_integrateSensitivityDUf I c) = x_history c"
  "u_history (call_integrateSensitivityDUf I c) = u_history c"
  "t_history (call_integrateSensitivityDUf I c) = t_history c"
  "dXdSiBack (call_integrateSensitivityDUf I c) = dXdSiBack c"
  "dXdQiBack (call_integrateSensitivityDUf I c) = dXdQiBack c"
  "cost (call_integrateSensitivityDUf I c) = cost c"
  "costGradientSi (call_integrateSensitivityDUf I c) = costGradientSi c"
  "costGradientQi (call_integrateSensitivityDUf I c) = costGradientQi c"
  "costGradientQip1 (call_integrateSensitivityDUf I c) = costGradientQip1 c"
  "nSteps (call_integrateSensitivityDUf I c) = nSteps c"
  "tStart (call_integrateSensitivityDUf I c) = tStart c"
  by (simp_all add: call_integrateSensitivityDUf_def Let_def)

lemma call_integrateSensitivityDUf_writes [simp]:
  "dXdQip1Back (call_integrateSensitivityDUf I c) = snd (integrateSensitivityDUf_CT I (integratorCT c) (dXdQip1Back c) (tStart c) (nSteps c) (dt_sim (settings c)))"
  "integratorCT (call_integrateSensitivityDUf I c) = fst (integrateSensitivityDUf_CT I (integratorCT c) (dXdQip1Back c) (tStart c) (nSteps c) (dt_sim (settings c)))"
  "invocations (call_integrateSensitivityDUf I c) = invocations c @ [IntegrateSensitivityDUf (dXdQip1Back c)]"
  by (simp_all add: call_integrateSensitivityDUf_def Let_def)

lemma call_integrateCostSensitivityDX0_keeps [simp]:
  "STATE_DIM (call_integrateCostSensitivityDX0 I c) = STATE_DIM c"
  "CONTROL_DIM (call_integrateCostSensitivityDX0 I c) = CONTROL_DIM c"
  "shotNr (call_integrateCostSensitivityDX0 I c) = shotNr c"
  "settings (call_integrateCostSensitivityDX0 I c) = settings c"
  "integrationCount (call_integrateCostSensitivityDX0 I c) = integrationCount c"
  "costIntegrationCount (call_integrateCostSensitivityDX0 I c) = costIntegrationCount c"
  "sensIntegrationCount (call_integrateCostSensitivityDX0 I c) = sensIntegrationCount c"
  "costSensIntegrationCount (call_integrateCostSensitivityDX0 I c) = costSensIntegrationCount c"
  "x_history (call_integrateCostSensitivityDX0 I c) = x_history c"
  "u_history (call_integrateCostSensitivityDX0 I c) = u_history c"
  "t_history (call_integrateCostSensitivityDX0 I c) = t_history c"
  "dXdSiBack (call_integrateCostSensitivityDX0 I c) = dXdSiBack c"
  "dXdQiBack (call_integrateCostSensitivityDX0 I c) = dXdQiBack c"
  "dXdQip1Back (call_integrateCostSensitivityDX0 I c) = dXdQip1Back c"
  "cost (call_integrateCostSensitivityDX0 I c) = cost c"
  "costGradientQi (call_integrateCostSensitivityDX0 I c) = costGradientQi c"
  "costGradientQip1 (call_integrateCostSensitivityDX0 I c) = costGradientQip1 c"
  "nSteps (call_integrateCostSensitivityDX0 I c) = nSteps c"
  "tStart (call_integrateCostSensitivityDX0 I c) = tStart c"
  by (simp_all add: call_integrateCostSensitivityDX0_def Let_def)

lemma call_integrateCostSensitivityDX0_writes [simp]:
  "costGradientSi (call_integrateCostSensitivityDX0 I c) = snd (integrateCostSensitivityDX0_CT I (integratorCT c) (costGradientSi c) (tStart c) (nSteps c) (dt_sim (settings c)))"
  "integratorCT (call_integrateCostSensitivityDX0 I c) = fst (integrateCostSensitivityDX0_CT I (integratorCT c) (costGradientSi c) (tStart c) (nSteps c) (dt_sim (settings c)))"
  "invocations (call_integrateCostSensitivityDX0 I c) = invocations c @ [IntegrateCostSensitivityDX0 (costGradientSi c)]"
  by (simp_all add: call_integrateCostSensitivityDX0_def Let_def)

lemma call_integrateCostSensitivityDU0_keeps [simp]:
  "STATE_DIM (call_integrateCostSensitivityDU0 I c) = STATE_DIM c"
  "CONTROL_DIM (call_integrateCostSensitivityDU0 I c) = CONTROL_DIM c"
  "shotNr (call_integrateCostSensitivityDU0 I c) = shotNr c"
  "settings (call_integrateCostSensitivityDU0 I c) = settings c"
  "integrationCount (call_integrateCostSensitivityDU0 I c) = integrationCount c"
  "costIntegrationCount (call_integrateCostSensitivityDU0 I c) = costIntegrationCount c"
  "sensIntegrationCount (call_integrateCostSensitivityDU0 I c) = sensIntegrationCount c"
  "costSensIntegrationCount (call_integrateCostSensitivityDU0 I c) = costSensIntegrationCount c"
  "x_history (call_integrateCostSensitivityDU0 I c) = x_history c"
  "u_history (call_integrateCostSensitivityDU0 I c) = u_history c"
  "t_history (call_integrateCostSensitivityDU0 I c) = t_history c"
  "dXdSiBack (call_integrateCostSensitivityDU0 I c) = dXdSiBack c"
  "dXdQiBack (call_integrateCostSensitivityDU0 I c) = dXdQiBack c"
  "dXdQip1Back (call_integrateCostSensitivityDU0 I c) = dXdQip1Back c"
  "cost (call_integrateCostSensitivityDU0 I c) = cost c"
  "costGradientSi (call_integrateCostSensitivityDU0 I c) = costGradientSi c"
  "costGradientQip1 (call_integrateCostSensitivityDU0 I c) = costGradientQip1 c"
  "nSteps (call_integrateCostSensitivityDU0 I c) = nSteps c"
  "tStart (call_integrateCostSensitivityDU0 I c) = tStart c"
  by (simp_all add: call_integrateCostSensitivityDU0_def Let_def)

lemma call_integrateCostSensitivityDU0_writes [simp]:
  "costGradientQi (call_integrateCostSensitivityDU0 I c) = snd (integrateCostSensitivityDU0_CT I (integratorCT c) (costGradientQi c) (tStart c) (nSteps c) (dt_sim (settings c)))"
  "integratorCT (call_integrateCostSensitivityDU0 I c) = fst (integrateCostSensitivityDU0_CT I (integratorCT c) (costGradientQi c) (tStart c) (nSteps c) (dt_sim (settings c)))"
  "invocations (call_integrateCostSensitivityDU0 I c) = invocations c @ [IntegrateCostSensitivityDU0 (costGradientQi c)]"
  by (simp_all add: call_integrateCostSensitivityDU0_def Let_def)

lemma call_integrateCostSensitivityDUf_keeps [simp]:
  "STATE_DIM (call_integrateCostSensitivityDUf I c) = STATE_DIM c"
  "CONTROL_DIM (call_integrateCostSensitivityDUf I c) = CONTROL_DIM c"
  "shotNr (call_integrateCostSensitivityDUf I c) = shotNr c"
  "settings (call_integrateCostSensitivityDUf I c) = settings c"
  "integrationCount (call_integrateCostSensitivityDUf I c) = integrationCount c"
  "costIntegrationCount (call_integrateCostSensitivityDUf I c) = costIntegrationCount c"
  "sensIntegrationCount (call_integrateCostSensitivityDUf I c) = sensIntegrationCount c"
  "costSensIntegrationCount (call_integrateCostSensitivityDUf I c) = costSensIntegrationCount c"
  "x_history (call_integrateCostSensitivityDUf I c) = x_history c"
  "u_history (call_integrateCostSensitivityDUf I c) = u_history c"
  "t_history (call_integrateCostSensitivityDUf I c) = t_history c"
  "dXdSiBack (call_integrateCostSensitivityDUf I c) = dXdSiBack c"
  "dXdQiBack (call_integrateCostSensitivityDUf I c) = dXdQiBack c"
  "dXdQip1Back (call_integrateCostSensitivityDUf I c) = dXdQip1Back c"
  "cost (call_integrateCostSensitivityDUf I c) = cost c"
  "costGradientSi (call_integrateCostSensitivityDUf I c) = costGradientSi c"
  "costGradientQi (call_integrateCostSensitivityDUf I c) = costGradientQi c"
  "nSteps (call_integrateCostSensitivityDUf I c) = nSteps c"
  "tStart (call_integrateCostSensitivityDUf I c) = tStart c"
  by (simp_all add: call_integrateCostSensitivityDUf_def Let_def)

lemma call_integrateCostSensitivityDUf_writes [simp]:
  "costGradientQip1 (call_integrateCostSensitivityDUf I c) = snd (integrateCostSensitivityDUf_CT I (integratorCT c) (costGradientQip1 c) (tStart c) (nSteps c) (dt_sim (settings c)))"
  "integratorCT (call_integrateCostSensitivityDUf I c) = fst (integrateCostSensitivityDUf_CT I (integratorCT c) (costGradientQip1 c) (tStart c) (nSteps c) (dt_sim (settings c)))"
  "invocations (call_integrateCostSensitivityDUf I c) = invocations c @ [IntegrateCostSensitivityDUf (costGradientQip1 c)]"
  by (simp_all add: call_integrateCostSensitivityDUf_def Let_def)

subsection \<open>The counters and constants across the four methods\<close>

lemma integrateShot_keeps [simp]:
  "STATE_DIM (integrateShot I w c) = STATE_DIM c"
  "CONTROL_DIM (integrateShot I w c) = CONTROL_DIM c"
  "shotNr (integrateShot I w c) = shotNr c"
  "settings (integrateShot I w c) = settings c"
  "costIntegrationCount (integrateShot I w c) = costIntegrationCount c"
  "sensIntegrationCount (integrateShot I w c) = sensIntegrationCount c"
  "costSensIntegrationCount (integrateShot I w c) = costSensIntegrationCount c"
  "u_history (integrateShot I w c) = u_history c"
  "dXdSiBack (integrateShot I w c) = dXdSiBack c"
  "dXdQiBack (integrateShot I w c) = dXdQiBack c"
  "dXdQip1Back (integrateShot I w c) = dXdQip1Back c"
  "cost (integrateShot I w c) = cost c"
  "costGradientSi (integrateShot I w c) = costGradientSi c"
  "costGradientQi (integrateShot I w c) = costGradientQi c"
  "costGradientQip1 (integrateShot I w c) = costGradientQip1 c"
  "nSteps (integrateShot I w c) = nSteps c"
  "tStart (integrateShot I w c) = tStart c"
  by (simp_all add: integrateShot_def Let_def)

lemma integrateShot_count [simp]:
  "integrationCount (integrateShot I w c) = getUpdateCount w"
  by (simp add: integrateShot_def Let_def)

lemma integrateCost_keeps [simp]:
  "STATE_DIM (integrateCost I w c) = STATE_DIM c"
  "CONTROL_DIM (integrateCost I w c) = CONTROL_DIM c"
  "shotNr (integrateCost I w c) = shotNr c"
  "settings (integrateCost I w c) = settings c"
  "sensIntegrationCount (integrateCost I w c) = sensIntegrationCount c"
  "costSensIntegrationCount (integrateCost I w c) = costSensIntegrationCount c"
  "u_history (integrateCost I w c) = u_history c"
  "dXdSiBack (integrateCost I w c) = dXdSiBack c"
  "dXdQiBack (integrateCost I w c) = dXdQiBack c"
  "dXdQip1Back (integrateCost I w c) = dXdQip1Back c"
  "costGradientSi (integrateCost I w c) = costGradientSi c"
  "costGradientQi (integrateCost I w c) = costGradientQi c"
  "costGradientQip1 (integrateCost I w c) = costGradientQip1 c"
  "nSteps (integrateCost I w c) = nSteps c"
  "tStart (integrateCost I w c) = tStart c"
  by (simp_all add: integrateCost_def Let_def)

lemma integrateCost_count [simp]:
  "costIntegrationCount (integrateCost I w c) = getUpdateCount w"
  "integrationCount (integrateCost I w c) =
     (if getUpdateCount w \<noteq> costIntegrationCount c then getUpdateCount w else integrationCount c)"
  by (simp_all add: integrateCost_def Let_def)

lemma integrateSensitivities_keeps [simp]:
  "STATE_DIM (integrateSensitivities I w c) = STATE_DIM c"
  "CONTROL_DIM (integrateSensitivities I w c) = CONTROL_DIM c"
  "shotNr (integrateSensitivities I w c) = shotNr c"
  "settings (integrateSensitivities I w c) = settings c"
  "costIntegrationCount (integrateSensitivities I w c) = costIntegrationCount c"
  "costSensIntegrationCount (integrateSensitivities I w c) = costSensIntegrationCount c"
  "u_history (integrateSensitivities I w c) = u_history c"
  "cost (integrateSensitivities I w c) = cost c"
  "costGradientSi (integrateSensitivities I w c) = costGradientSi c"
  "costGradientQi (integrateSensitivities I w c) = costGradientQi c"
  "costGradientQip1 (integrateSensitivities I w c) = costGradientQip1 c"
  "nSteps (integrateSensitivities I w c) = nSteps c"
  "tStart (integrateSensitivities I w c) = tStart c"
  by (simp_all add: integrateSensitivities_def Let_def)

lemma integrateSensitivities_count [simp]:
  "sensIntegrationCount (integrateSensitivities I w c) = getUpdateCount w"
  "integrationCount (integrateSensitivities I w c) =
     (if getUpdateCount w \<noteq> sensIntegrationCount c then getUpdateCount w else integrationCount c)"
  by (simp_all add: integrateSensitivities_def Let_def)

lemma integrateCostSensitivities_keeps [simp]:
  "STATE_DIM (integrateCostSensitivities I w c) = STATE_DIM c"
  "CONTROL_DIM (integrateCostSensitivities I w c) = CONTROL_DIM c"
  "shotNr (integrateCostSensitivities I w c) = shotNr c"
  "settings (integrateCostSensitivities I w c) = settings c"
  "costIntegrationCount (integrateCostSensitivities I w c) = costIntegrationCount c"
  "u_history (integrateCostSensitivities I w c) = u_history c"
  "cost (integrateCostSensitivities I w c) = cost c"
  "nSteps (integrateCostSensitivities I w c) = nSteps c"
  "tStart (integrateCostSensitivities I w c) = tStart c"
  by (simp_all add: integrateCostSensitivities_def Let_def)

lemma integrateCostSensitivities_count [simp]:
  "costSensIntegrationCount (integrateCostSensitivities I w c) = getUpdateCount w"
  "sensIntegrationCount (integrateCostSensitivities I w c) =
     (if getUpdateCount w \<noteq> costSensIntegrationCount c then getUpdateCount w
      else sensIntegrationCount c)"
  "integrationCount (integrateCostSensitivities I w c) =
     (if getUpdateCount w \<noteq> costSensIntegrationCount c
      then (if getUpdateCount w \<noteq> sensIntegrationCount c then getUpdateCount w
            else integrationCount c)
      else integrationCount c)"
  by (simp_all add: integrateCostSensitivities_def Let_def)

lemma tier_count: "tierCount t (runTier I w t c) = getUpdateCount w"
  by (cases t) simp_all

lemma tier_fresh: "tierCount t c = getUpdateCount w \<Longrightarrow> runTier I w t c = c"
  by (cases t)
    (simp_all add: integrateShot_def integrateCost_def integrateSensitivities_def
       integrateCostSensitivities_def)

lemmas tier_defs =
  integrateShot_def integrateCost_def integrateSensitivities_def integrateCostSensitivities_def

lemmas example_defs =
  exampleIntegrator_def exampleGrid_def exampleSettings_def exampleVector_def exampleContainer_def

lemma example_integrator_simps:
  "create_CT exampleIntegrator ty = (0, 0)"
  "setLinearSystem_CT exampleIntegrator i = i"
  "setCostFunction_CT exampleIntegrator i = i"
  "integrate_CT exampleIntegrator i x t n d xs ts
     = ((unat n, snd i), replicate (Suc (unat n)) x, replicate (Suc (unat n)) t)"
  "integrateCost_CT exampleIntegrator i a t n d = ((fst i, a + 1), a + 1)"
  "linearize_CT exampleIntegrator i = i"
  "integrateSensitivityDX0_CT exampleIntegrator i m t n d = (i, m)"
  "integrateSensitivityDU0_CT exampleIntegrator i m t n d = (i, m)"
  "integrateSensitivityDUf_CT exampleIntegrator i m t n d = (i, m)"
  "integrateCostSensitivityDX0_CT exampleIntegrator i g t n d = (i, g)"
  "integrateCostSensitivityDU0_CT exampleIntegrator i g t n d = (i, g)"
  "integrateCostSensitivityDUf_CT exampleIntegrator i g t n d = (i, g)"
  "clearStates_CT exampleIntegrator i = (0, snd i)"
  "clearSensitivities_CT exampleIntegrator i = i"
  "clearLinearization_CT exampleIntegrator i = i"
  by (simp_all add: exampleIntegrator_def)

lemma example_container_simps:
  "STATE_DIM exampleContainer = 2" "CONTROL_DIM exampleContainer = 1"
  "shotNr exampleContainer = 0" "settings exampleContainer = exampleSettings"
  "integrationCount exampleContainer = 0" "costIntegrationCount exampleContainer = 0"
  "sensIntegrationCount exampleContainer = 0" "costSensIntegrationCount exampleContainer = 0"
  "x_history exampleContainer = []" "u_history exampleContainer = []"
  "t_history exampleContainer = []"
  "dXdSiBack exampleContainer = []" "dXdQiBack exampleContainer = []"
  "dXdQip1Back exampleContainer = []" "cost exampleContainer = 0"
  "costGradientSi exampleContainer = [0, 0]" "costGradientQi exampleContainer = [0]"
  "costGradientQip1 exampleContainer = [0]" "integratorCT exampleContainer = (0, 0)"
  "nSteps exampleContainer = 1" "tStart exampleContainer = 0"
  "invocations exampleContainer = [SetLinearSystem, SetCostFunction]"
  by (simp_all add: exampleContainer_def)

lemma example_vector_simps:
  "getUpdateCount (exampleVector k) = of_nat k"
  "getOptimizedState (exampleVector k) nr = [real k, 0]"
  by (simp_all add: exampleVector_def)

lemma example_settings_simps:
  "N exampleSettings = 2" "dt_sim exampleSettings = 1" "integrationType exampleSettings = RK4"
  "splineType exampleSettings = PIECEWISE_LINEAR" "costEvaluationType exampleSettings = FULL"
  by (simp_all add: exampleSettings_def)

lemmas example_simps =
  example_integrator_simps example_container_simps example_vector_simps example_settings_simps

lemma example_construct:
  "construct exampleIntegrator 2 1 exampleGrid 0 exampleSettings [] [] [] = Inr exampleContainer"
  by (simp add: construct_def construct_members_def example_defs setZero_vector_def Let_def
      numeral_2_eq_2 step_count_unit)

subsection \<open>Idempotence\<close>

text \<open>
  Claim C1. Each of the four integration methods, called a second time while the update
  count of the optimisation vector is what it was at the first call, returns the container
  exactly as the first call left it. The container includes the list of calls made on the
  integrator and every cached output, so the second call invokes nothing on the integrator
  and changes no cached value.
\<close>

theorem tiers_idempotent:
  "getUpdateCount w' = getUpdateCount w \<longrightarrow>
     integrateShot I w' (integrateShot I w c) = integrateShot I w c
     \<and> integrateCost I w' (integrateCost I w c) = integrateCost I w c
     \<and> integrateSensitivities I w' (integrateSensitivities I w c) = integrateSensitivities I w c
     \<and> integrateCostSensitivities I w' (integrateCostSensitivities I w c)
         = integrateCostSensitivities I w c
     \<and> (\<forall>t. invocations (runTier I w' t (runTier I w t c)) = invocations (runTier I w t c)
            \<and> cachedOutputs (runTier I w' t (runTier I w t c)) = cachedOutputs (runTier I w t c))"
proof
  assume same: "getUpdateCount w' = getUpdateCount w"
  have idem: "runTier I w' t (runTier I w t c) = runTier I w t c" for t
    by (rule tier_fresh) (simp add: tier_count same)
  from idem [of Shot] idem [of Cost] idem [of Sensitivities] idem [of CostSensitivities]
  show "integrateShot I w' (integrateShot I w c) = integrateShot I w c
     \<and> integrateCost I w' (integrateCost I w c) = integrateCost I w c
     \<and> integrateSensitivities I w' (integrateSensitivities I w c) = integrateSensitivities I w c
     \<and> integrateCostSensitivities I w' (integrateCostSensitivities I w c)
         = integrateCostSensitivities I w c
     \<and> (\<forall>t. invocations (runTier I w' t (runTier I w t c)) = invocations (runTier I w t c)
            \<and> cachedOutputs (runTier I w' t (runTier I w t c)) = cachedOutputs (runTier I w t c))"
    by (simp add: idem)
qed

theorem tiers_idempotent_witness:
  "getUpdateCount ((exampleVector 2)\<lparr>getOptimizedState := (\<lambda>nr. [7, 7])\<rparr>)
     = getUpdateCount (exampleVector 2)
   \<and> integrateShot exampleIntegrator ((exampleVector 2)\<lparr>getOptimizedState := (\<lambda>nr. [7, 7])\<rparr>)
        (integrateShot exampleIntegrator (exampleVector 2) exampleContainer)
       = integrateShot exampleIntegrator (exampleVector 2) exampleContainer
   \<and> integrateCostSensitivities exampleIntegrator
        ((exampleVector 2)\<lparr>getOptimizedState := (\<lambda>nr. [7, 7])\<rparr>)
        (integrateCostSensitivities exampleIntegrator (exampleVector 2) exampleContainer)
       = integrateCostSensitivities exampleIntegrator (exampleVector 2) exampleContainer"
proof -
  have h: "getUpdateCount ((exampleVector 2)\<lparr>getOptimizedState := (\<lambda>nr. [7, 7])\<rparr>)
     = getUpdateCount (exampleVector 2)"
    by simp
  from tiers_idempotent [of "(exampleVector 2)\<lparr>getOptimizedState := (\<lambda>nr. [7, 7])\<rparr>"
      "exampleVector 2" exampleIntegrator exampleContainer] h
  show ?thesis by blast
qed

subsection \<open>The update count zero\<close>

lemma construct_members_counters:
  "counters (construct_members I sd cd tg nr dms m0 m1 m2 ig) = (0, 0, 0, 0)"
  by (simp add: construct_members_def counters_def Let_def)

lemma construct_Inr:
  assumes "construct I sd cd tg nr dms m0 m1 m2 = Inr c"
  shows "\<exists>ig. c = construct_members I sd cd tg nr dms m0 m1 m2 ig"
  using assms by (auto simp: construct_def split: if_splits IntegrationType.splits)

lemma runCalls_all_fresh:
  assumes "\<forall>(t, w) \<in> set calls. tierCount t c = getUpdateCount w"
  shows "runCalls I calls c = c"
  using assms
proof (induction calls)
  case Nil
  then show ?case by simp
next
  case (Cons a calls)
  obtain t w where a: "a = (t, w)" by (cases a)
  with Cons.prems have "runTier I w t c = c" by (simp add: tier_fresh)
  with Cons a show ?case by simp
qed

text \<open>
  Claim C10. A constructed container has its four counters at 0. Any run of calls of the
  four methods in which every optimisation vector has update count 0 returns it unchanged:
  nothing is invoked on the integrator, whose only calls so far are the two set-up calls of
  the constructor, and the histories stay empty, the cost 0 and the cost gradients zero.
\<close>

theorem zero_counter_no_op:
  assumes "construct I sd cd tg nr dms m0 m1 m2 = Inr c0"
    and "\<forall>(t, w) \<in> set calls. getUpdateCount w = 0"
  shows "counters c0 = (0, 0, 0, 0)
    \<and> runCalls I calls c0 = c0
    \<and> invocations (runCalls I calls c0) = invocations c0
    \<and> set (invocations c0) \<subseteq> {SetLinearSystem, SetCostFunction}
    \<and> x_history c0 = [] \<and> t_history c0 = [] \<and> cost c0 = 0
    \<and> costGradientSi c0 = setZero_vector sd
    \<and> costGradientQi c0 = setZero_vector cd
    \<and> costGradientQip1 c0 = setZero_vector cd"
proof -
  from assms(1) obtain ig where c0: "c0 = construct_members I sd cd tg nr dms m0 m1 m2 ig"
    using construct_Inr by blast
  have cnt: "counters c0 = (0, 0, 0, 0)"
    by (simp add: c0 construct_members_counters)
  have "tierCount t c0 = 0" for t
    using cnt by (cases t) (simp_all add: counters_def)
  with assms(2) have "\<forall>(t, w) \<in> set calls. tierCount t c0 = getUpdateCount w"
    by auto
  then have run: "runCalls I calls c0 = c0"
    by (rule runCalls_all_fresh)
  have "set (invocations c0) \<subseteq> {SetLinearSystem, SetCostFunction}"
    by (simp add: c0 construct_members_def Let_def)
  moreover have "x_history c0 = [] \<and> t_history c0 = [] \<and> cost c0 = 0
    \<and> costGradientSi c0 = setZero_vector sd
    \<and> costGradientQi c0 = setZero_vector cd
    \<and> costGradientQip1 c0 = setZero_vector cd"
    by (simp add: c0 construct_members_def Let_def)
  ultimately show ?thesis using cnt run by simp
qed

theorem zero_counter_no_op_witness:
  "construct exampleIntegrator 2 1 exampleGrid 0 exampleSettings [] [] [] = Inr exampleContainer
   \<and> getUpdateCount (exampleVector 0) = 0
   \<and> runCalls exampleIntegrator
        [(Shot, exampleVector 0), (CostSensitivities, exampleVector 0), (Cost, exampleVector 0)]
        exampleContainer = exampleContainer
   \<and> x_history exampleContainer = []"
proof -
  have z: "getUpdateCount (exampleVector 0) = 0"
    by (simp add: exampleVector_def)
  then have h: "\<forall>(t, w) \<in> set [(Shot, exampleVector 0), (CostSensitivities, exampleVector 0),
      (Cost, exampleVector 0)]. getUpdateCount w = 0"
    by simp
  from zero_counter_no_op [OF example_construct h] z example_construct
  show ?thesis by simp
qed

subsection \<open>reset\<close>

lemma reset_keeps [simp]:
  "counters (reset I c) = counters c"
  "cachedOutputs (reset I c) = cachedOutputs c"
  "tierCount t (reset I c) = tierCount t c"
  "u_history (reset I c) = u_history c"
  "settings (reset I c) = settings c"
  "shotNr (reset I c) = shotNr c"
  "nSteps (reset I c) = nSteps c"
  "tStart (reset I c) = tStart c"
  by (cases t; simp add: reset_def counters_def cachedOutputs_def Let_def)+

lemma fullChain_counters:
  "counters (fullChain I w c)
     = (getUpdateCount w, getUpdateCount w, getUpdateCount w, getUpdateCount w)"
  by (simp add: fullChain_def counters_def)

lemma fullChain_fresh:
  assumes "counters c = (getUpdateCount w, getUpdateCount w, getUpdateCount w, getUpdateCount w)"
  shows "fullChain I w c = c"
  using assms by (simp add: fullChain_def counters_def tier_defs)

text \<open>
  Claim C7. \<open>reset\<close> makes the three clearing calls on the integrator and changes nothing
  else: the four counters and every cached output stay as they were. So a method whose
  counter equals the update count still returns without recomputing after \<open>reset\<close>, and
  calling \<open>reset\<close> after the four methods and then the four methods again, with the same
  optimisation vector, leaves the cached outputs and the counters as the first run of the
  four methods produced them.
\<close>

theorem reset_frame:
  "counters (reset I c) = counters c
   \<and> cachedOutputs (reset I c) = cachedOutputs c
   \<and> integratorCT (reset I c)
       = clearLinearization_CT I (clearSensitivities_CT I (clearStates_CT I (integratorCT c)))
   \<and> invocations (reset I c)
       = invocations c @ [ClearStates, ClearSensitivities, ClearLinearization]
   \<and> (\<forall>t. tierCount t c = getUpdateCount w \<longrightarrow> runTier I w t (reset I c) = reset I c)
   \<and> fullChain I w (reset I (fullChain I w c)) = reset I (fullChain I w c)
   \<and> cachedOutputs (fullChain I w (reset I (fullChain I w c))) = cachedOutputs (fullChain I w c)
   \<and> counters (fullChain I w (reset I (fullChain I w c))) = counters (fullChain I w c)"
proof -
  have a: "integratorCT (reset I c)
       = clearLinearization_CT I (clearSensitivities_CT I (clearStates_CT I (integratorCT c)))"
    by (simp add: reset_def Let_def)
  have b: "invocations (reset I c)
       = invocations c @ [ClearStates, ClearSensitivities, ClearLinearization]"
    by (simp add: reset_def Let_def)
  have d: "runTier I w t (reset I c) = reset I c" if "tierCount t c = getUpdateCount w" for t
    using that by (intro tier_fresh) simp
  have e: "fullChain I w (reset I (fullChain I w c)) = reset I (fullChain I w c)"
    by (rule fullChain_fresh) (simp add: fullChain_counters)
  show ?thesis
    using a b d by (simp add: e)
qed

theorem reset_frame_witness:
  "tierCount Sensitivities (fullChain exampleIntegrator (exampleVector 2) exampleContainer)
     = getUpdateCount (exampleVector 2)
   \<and> runTier exampleIntegrator (exampleVector 2) Sensitivities
        (reset exampleIntegrator (fullChain exampleIntegrator (exampleVector 2) exampleContainer))
     = reset exampleIntegrator (fullChain exampleIntegrator (exampleVector 2) exampleContainer)
   \<and> x_history (fullChain exampleIntegrator (exampleVector 2) exampleContainer) = [[2, 0], [2, 0]]"
proof -
  have h: "tierCount Sensitivities (fullChain exampleIntegrator (exampleVector 2) exampleContainer)
     = getUpdateCount (exampleVector 2)"
    by (simp add: fullChain_def)
  have x: "x_history (fullChain exampleIntegrator (exampleVector 2) exampleContainer) = [[2, 0], [2, 0]]"
    by (simp add: fullChain_def tier_defs Let_def example_simps)
  from reset_frame [of exampleIntegrator "fullChain exampleIntegrator (exampleVector 2) exampleContainer"
      "exampleVector 2"] h x
  show ?thesis by blast
qed

subsection \<open>Construction\<close>

text \<open>
  Claim C4. The constructor throws when the shot index is not below \<open>N_\<close>, throws for the
  adaptive scheme \<open>RK5\<close>, and leaves the process through \<open>exit\<close> for any other integration
  type that is neither \<open>EULER\<close> nor \<open>RK4\<close>; in each of these cases no object results. With
  a shot index below \<open>N_\<close> and \<open>EULER\<close> or \<open>RK4\<close> it returns the object, and these are the
  only cases in which it does.
\<close>

theorem construct_errors:
  "(N dms \<le> nr \<longrightarrow>
      construct I sd cd tg nr dms ma mb mc
        = Inl (runtime_error ''Dms Shot Integrator: shot index >= settings.N_ - check your settings.''))
   \<and> (nr < N dms \<and> integrationType dms = RK5 \<longrightarrow>
      construct I sd cd tg nr dms ma mb mc
        = Inl (runtime_error ''Currently we do not support adaptive integrators in dms''))
   \<and> (nr < N dms \<and> integrationType dms = IntegrationType_unknown k \<longrightarrow>
      construct I sd cd tg nr dms ma mb mc = Inl (exit_process 0))
   \<and> (nr < N dms \<and> (integrationType dms = EULER \<or> integrationType dms = RK4) \<longrightarrow>
      (\<exists>c. construct I sd cd tg nr dms ma mb mc = Inr c \<and> shotNr c = nr \<and> settings c = dms))
   \<and> ((\<exists>c. construct I sd cd tg nr dms ma mb mc = Inr c)
        = (nr < N dms \<and> (integrationType dms = EULER \<or> integrationType dms = RK4)))"
  by (cases "integrationType dms")
    (auto simp: construct_def construct_members_def Let_def)

theorem construct_errors_witness:
  "construct exampleIntegrator 2 1 exampleGrid 2 exampleSettings [] [] []
     = Inl (runtime_error ''Dms Shot Integrator: shot index >= settings.N_ - check your settings.'')
   \<and> construct exampleIntegrator 2 1 exampleGrid 0 (exampleSettings\<lparr>integrationType := RK5\<rparr>) [] [] []
     = Inl (runtime_error ''Currently we do not support adaptive integrators in dms'')
   \<and> construct exampleIntegrator 2 1 exampleGrid 0
        (exampleSettings\<lparr>integrationType := IntegrationType_unknown 7\<rparr>) [] [] []
     = Inl (exit_process 0)
   \<and> (\<exists>c. construct exampleIntegrator 2 1 exampleGrid 0 exampleSettings [] [] [] = Inr c
          \<and> shotNr c = 0 \<and> settings c = exampleSettings)"
proof -
  have n: "N exampleSettings = 2" "integrationType exampleSettings = RK4"
    by (simp_all add: exampleSettings_def)
  have a: "construct exampleIntegrator 2 1 exampleGrid 2 exampleSettings [] [] []
     = Inl (runtime_error ''Dms Shot Integrator: shot index >= settings.N_ - check your settings.'')"
    using construct_errors [of exampleSettings 2 exampleIntegrator 2 1 exampleGrid "[]" "[]" "[]" 0] n
    by simp
  have b: "construct exampleIntegrator 2 1 exampleGrid 0 (exampleSettings\<lparr>integrationType := RK5\<rparr>) [] [] []
     = Inl (runtime_error ''Currently we do not support adaptive integrators in dms'')"
    using construct_errors [of "exampleSettings\<lparr>integrationType := RK5\<rparr>" 0 exampleIntegrator 2 1
        exampleGrid "[]" "[]" "[]" 0] n
    by simp
  have c: "construct exampleIntegrator 2 1 exampleGrid 0
        (exampleSettings\<lparr>integrationType := IntegrationType_unknown 7\<rparr>) [] [] []
     = Inl (exit_process 0)"
    using construct_errors [of "exampleSettings\<lparr>integrationType := IntegrationType_unknown 7\<rparr>" 0
        exampleIntegrator 2 1 exampleGrid "[]" "[]" "[]" 7] n
    by simp
  have d: "\<exists>c. construct exampleIntegrator 2 1 exampleGrid 0 exampleSettings [] [] [] = Inr c
          \<and> shotNr c = 0 \<and> settings c = exampleSettings"
    using construct_errors [of exampleSettings 0 exampleIntegrator 2 1 exampleGrid "[]" "[]" "[]" 0] n
    by simp
  from a b c d show ?thesis by blast
qed

subsection \<open>Accessors\<close>

lemmas accessor_defs =
  getStateIntegrated_def getIntegrationTimeFinal_def getdXdSiIntegrated_def
  getdXdQiIntegrated_def getdXdQip1Integrated_def getXHistory_def getTHistory_def
  getCostIntegrated_def getdLdSiIntegrated_def getdLdQiIntegrated_def getdLdQip1Integrated_def

text \<open>
  Claim C5 says that every accessor returns a value in every state, also
  \<open>getStateIntegrated\<close> and \<open>getIntegrationTimeFinal\<close> on a freshly constructed
  container. There both histories are empty and \<open>back()\<close> has no defined result.
\<close>

theorem accessor_empty_history_counterexample:
  "construct exampleIntegrator 2 1 exampleGrid 0 exampleSettings [] [] [] = Inr exampleContainer
   \<and> x_history exampleContainer = []
   \<and> t_history exampleContainer = []
   \<and> fst (getStateIntegrated exampleContainer) = None
   \<and> fst (getIntegrationTimeFinal exampleContainer) = None"
  using example_construct
  by (simp add: getStateIntegrated_def getIntegrationTimeFinal_def exampleContainer_def)

text \<open>
  Claim C5, amended. Every accessor leaves the container unchanged. The nine accessors
  that return a member return its cached value in every state. \<open>getStateIntegrated\<close> and
  \<open>getIntegrationTimeFinal\<close> return the last entry of the cached history when the history
  is not empty, and have no defined result when it is empty.
\<close>

theorem accessors_return_cache:
  "snd (getStateIntegrated c) = c \<and> snd (getIntegrationTimeFinal c) = c
   \<and> snd (getdXdSiIntegrated c) = c \<and> snd (getdXdQiIntegrated c) = c
   \<and> snd (getdXdQip1Integrated c) = c \<and> snd (getXHistory c) = c \<and> snd (getTHistory c) = c
   \<and> snd (getCostIntegrated c) = c \<and> snd (getdLdSiIntegrated c) = c
   \<and> snd (getdLdQiIntegrated c) = c \<and> snd (getdLdQip1Integrated c) = c
   \<and> fst (getdXdSiIntegrated c) = dXdSiBack c \<and> fst (getdXdQiIntegrated c) = dXdQiBack c
   \<and> fst (getdXdQip1Integrated c) = dXdQip1Back c
   \<and> fst (getXHistory c) = x_history c \<and> fst (getTHistory c) = t_history c
   \<and> fst (getCostIntegrated c) = cost c \<and> fst (getdLdSiIntegrated c) = costGradientSi c
   \<and> fst (getdLdQiIntegrated c) = costGradientQi c
   \<and> fst (getdLdQip1Integrated c) = costGradientQip1 c
   \<and> (x_history c \<noteq> [] \<longrightarrow> fst (getStateIntegrated c) = Some (last (x_history c)))
   \<and> (t_history c \<noteq> [] \<longrightarrow> fst (getIntegrationTimeFinal c) = Some (last (t_history c)))
   \<and> (x_history c = [] \<longrightarrow> fst (getStateIntegrated c) = None)
   \<and> (t_history c = [] \<longrightarrow> fst (getIntegrationTimeFinal c) = None)"
  by (simp add: accessor_defs)

lemma example_shot_history:
  "x_history (integrateShot exampleIntegrator (exampleVector 2) exampleContainer) = [[2, 0], [2, 0]]"
  "t_history (integrateShot exampleIntegrator (exampleVector 2) exampleContainer) = [0, 0]"
  by (simp_all add: integrateShot_def Let_def example_simps)

theorem accessors_return_cache_witness:
  "x_history (integrateShot exampleIntegrator (exampleVector 2) exampleContainer) \<noteq> []
   \<and> t_history (integrateShot exampleIntegrator (exampleVector 2) exampleContainer) \<noteq> []
   \<and> fst (getStateIntegrated (integrateShot exampleIntegrator (exampleVector 2) exampleContainer))
       = Some [2, 0]
   \<and> fst (getIntegrationTimeFinal (integrateShot exampleIntegrator (exampleVector 2) exampleContainer))
       = Some 0
   \<and> x_history exampleContainer = []
   \<and> fst (getStateIntegrated exampleContainer) = None
   \<and> t_history exampleContainer = []
   \<and> fst (getIntegrationTimeFinal exampleContainer) = None"
proof -
  have e: "x_history exampleContainer = []" "t_history exampleContainer = []"
    by (simp_all add: exampleContainer_def)
  have a: "fst (getStateIntegrated (integrateShot exampleIntegrator (exampleVector 2) exampleContainer))
       = Some [2, 0]
     \<and> fst (getIntegrationTimeFinal (integrateShot exampleIntegrator (exampleVector 2) exampleContainer))
       = Some 0"
    using accessors_return_cache [of "integrateShot exampleIntegrator (exampleVector 2) exampleContainer"]
    by (simp add: example_shot_history)
  have b: "fst (getStateIntegrated exampleContainer) = None
     \<and> fst (getIntegrationTimeFinal exampleContainer) = None"
    using accessors_return_cache [of exampleContainer] e by simp
  from a b e show ?thesis by (simp add: example_shot_history)
qed

subsection \<open>Freshness along the dependencies\<close>

lemma countersOrdered_runTier:
  assumes "countersOrdered m c" and "m \<le> getUpdateCount w"
  shows "countersOrdered (getUpdateCount w) (runTier I w t c)"
  using assms by (cases t) (auto simp: countersOrdered_def)

lemma countersOrdered_mono:
  "countersOrdered m c \<Longrightarrow> m \<le> v \<Longrightarrow> countersOrdered v c"
  by (auto simp: countersOrdered_def)

lemma countersOrdered_runCalls:
  assumes "countersOrdered m c"
    and "sorted (map (\<lambda>(t, w). getUpdateCount w) calls)"
    and "\<forall>(t, w) \<in> set calls. m \<le> getUpdateCount w \<and> getUpdateCount w \<le> v"
    and "m \<le> v"
  shows "countersOrdered v (runCalls I calls c)"
  using assms
proof (induction calls arbitrary: c m)
  case Nil
  then show ?case by (simp add: countersOrdered_mono)
next
  case (Cons a calls)
  obtain t w where a: "a = (t, w)" by (cases a)
  from Cons.prems a have mw: "m \<le> getUpdateCount w" and wv: "getUpdateCount w \<le> v"
    by auto
  have step: "countersOrdered (getUpdateCount w) (runTier I w t c)"
    using Cons.prems(1) mw by (rule countersOrdered_runTier)
  have rest: "\<forall>(t', w') \<in> set calls. getUpdateCount w \<le> getUpdateCount w' \<and> getUpdateCount w' \<le> v"
    using Cons.prems(2,3) a by auto
  have "sorted (map (\<lambda>(t, w). getUpdateCount w) calls)"
    using Cons.prems(2) by simp
  from Cons.IH [OF step this rest wv] a show ?case by simp
qed

lemma countersOrdered_closed: "countersOrdered v c \<Longrightarrow> downwardClosed v c"
  by (auto simp: countersOrdered_def downwardClosed_def)

text \<open>
  Claim C9 says that in every state reached by calls of the four methods, a method whose
  counter equals a given update count has the methods it depends on at that count too.
  After \<open>integrateCostSensitivities\<close> at update count 2 and \<open>integrateShot\<close> at update
  count 3 the sensitivity counter is 2 and the state integration's counter is 3: the claim
  fails for the value 2, be it taken as an earlier update count or as the count of an
  optimisation vector whose counter is 2 again.
\<close>

theorem freshness_not_closed_counterexample:
  "construct exampleIntegrator 2 1 exampleGrid 0 exampleSettings [] [] [] = Inr exampleContainer
   \<and> counters (runCalls exampleIntegrator
        [(CostSensitivities, exampleVector 2), (Shot, exampleVector 3)] exampleContainer)
       = (3, 0, 2, 2)
   \<and> \<not> downwardClosed 2 (runCalls exampleIntegrator
        [(CostSensitivities, exampleVector 2), (Shot, exampleVector 3)] exampleContainer)"
  using example_construct
  by (simp add: downwardClosed_def counters_def exampleVector_def exampleContainer_def)

text \<open>
  Claim C9, amended. When the update counts of the successive calls never decrease (as
  unsigned numbers), then in the state reached from a constructed container freshness is
  downward closed at every value \<open>v\<close> that is at least every update count used so far, so
  at the current update count of the optimisation vector: there a method that is fresh has
  the methods it depends on fresh too.
\<close>

theorem freshness_downward_closed:
  assumes "construct I sd cd tg nr dms ma mb mc = Inr c0"
    and "sorted (map (\<lambda>(t, w). getUpdateCount w) calls)"
    and "\<forall>(t, w) \<in> set calls. getUpdateCount w \<le> v"
  shows "downwardClosed v (runCalls I calls c0)"
proof -
  from assms(1) obtain ig where c0: "c0 = construct_members I sd cd tg nr dms ma mb mc ig"
    using construct_Inr by blast
  have "counters c0 = (0, 0, 0, 0)"
    by (simp add: c0 construct_members_counters)
  then have "countersOrdered 0 c0"
    by (simp add: counters_def countersOrdered_def)
  moreover have "\<forall>(t, w) \<in> set calls. 0 \<le> getUpdateCount w \<and> getUpdateCount w \<le> v"
    using assms(3) by auto
  ultimately have "countersOrdered v (runCalls I calls c0)"
    using assms(2) by (intro countersOrdered_runCalls [where m = 0]) simp_all
  then show ?thesis by (rule countersOrdered_closed)
qed

theorem freshness_downward_closed_witness:
  "construct exampleIntegrator 2 1 exampleGrid 0 exampleSettings [] [] [] = Inr exampleContainer
   \<and> sorted [getUpdateCount (exampleVector 2), getUpdateCount (exampleVector 3)]
   \<and> getUpdateCount (exampleVector 2) \<le> 3 \<and> getUpdateCount (exampleVector 3) \<le> 3
   \<and> downwardClosed 3 (runCalls exampleIntegrator
        [(CostSensitivities, exampleVector 2), (Shot, exampleVector 3)] exampleContainer)"
proof -
  have u: "getUpdateCount (exampleVector 2) = 2" "getUpdateCount (exampleVector 3) = 3"
    by (simp_all add: exampleVector_def)
  have s: "sorted (map (\<lambda>(t, w). getUpdateCount w)
      [(CostSensitivities, exampleVector 2), (Shot, exampleVector 3)])"
    by (simp add: u)
  have b: "\<forall>(t, w) \<in> set [(CostSensitivities, exampleVector 2), (Shot, exampleVector 3)].
      getUpdateCount w \<le> 3"
    by (simp add: u)
  from freshness_downward_closed [OF example_construct s b] example_construct
  show ?thesis by (simp add: u)
qed

subsection \<open>Containers that agree up to the cost\<close>

lemma respectsViewD:
  assumes "respectsView v f" and "v i = v j"
  shows "snd (f i x t n d) = snd (f j x t n d)"
    and "v (fst (f i x t n d)) = v (fst (f j x t n d))"
  using assms unfolding respectsView_def by blast+

lemma sensitivitiesRespectView_id: "sensitivitiesRespectView I (\<lambda>i. i)"
  by (simp add: sensitivitiesRespectView_def respectsView_def)

lemma agree_refl [simp]: "agreeUpToCost v a a"
  by (simp add: agreeUpToCost_def)

lemma agree_sym: "agreeUpToCost v a b \<Longrightarrow> agreeUpToCost v b a"
  by (simp add: agreeUpToCost_def)

lemma agree_trans: "agreeUpToCost v a b \<Longrightarrow> agreeUpToCost v b c \<Longrightarrow> agreeUpToCost v a c"
  by (simp add: agreeUpToCost_def)

lemma agree_id_weaken: "agreeUpToCost (\<lambda>i. i) a b \<Longrightarrow> agreeUpToCost v a b"
  by (simp add: agreeUpToCost_def)

lemma agree_counter_updates [simp]:
  "agreeUpToCost v (a\<lparr>integrationCount := k\<rparr>) b = agreeUpToCost v a b"
  "agreeUpToCost v (a\<lparr>costIntegrationCount := k\<rparr>) b = agreeUpToCost v a b"
  "agreeUpToCost v (a\<lparr>sensIntegrationCount := k\<rparr>) b = agreeUpToCost v a b"
  "agreeUpToCost v (a\<lparr>costSensIntegrationCount := k\<rparr>) b = agreeUpToCost v a b"
  "agreeUpToCost v (a\<lparr>cost := r\<rparr>) b = agreeUpToCost v a b"
  "agreeUpToCost v a (b\<lparr>integrationCount := k\<rparr>) = agreeUpToCost v a b"
  "agreeUpToCost v a (b\<lparr>costIntegrationCount := k\<rparr>) = agreeUpToCost v a b"
  "agreeUpToCost v a (b\<lparr>sensIntegrationCount := k\<rparr>) = agreeUpToCost v a b"
  "agreeUpToCost v a (b\<lparr>costSensIntegrationCount := k\<rparr>) = agreeUpToCost v a b"
  "agreeUpToCost v a (b\<lparr>cost := r\<rparr>) = agreeUpToCost v a b"
  by (simp_all add: agreeUpToCost_def)

lemma agree_seed_updates:
  assumes "agreeUpToCost v a b"
  shows "agreeUpToCost v (a\<lparr>dXdSiBack := m\<rparr>) (b\<lparr>dXdSiBack := m\<rparr>)"
    and "agreeUpToCost v (a\<lparr>dXdQiBack := m\<rparr>) (b\<lparr>dXdQiBack := m\<rparr>)"
    and "agreeUpToCost v (a\<lparr>dXdQip1Back := m\<rparr>) (b\<lparr>dXdQip1Back := m\<rparr>)"
    and "agreeUpToCost v (a\<lparr>costGradientSi := g\<rparr>) (b\<lparr>costGradientSi := g\<rparr>)"
    and "agreeUpToCost v (a\<lparr>costGradientQi := g\<rparr>) (b\<lparr>costGradientQi := g\<rparr>)"
    and "agreeUpToCost v (a\<lparr>costGradientQip1 := g\<rparr>) (b\<lparr>costGradientQip1 := g\<rparr>)"
  using assms by (simp_all add: agreeUpToCost_def)

lemma agree_calls:
  assumes r: "sensitivitiesRespectView I v" and ab: "agreeUpToCost v a b"
  shows "agreeUpToCost v (call_linearize I a) (call_linearize I b)"
    and "agreeUpToCost v (call_integrateSensitivityDX0 I a) (call_integrateSensitivityDX0 I b)"
    and "agreeUpToCost v (call_integrateSensitivityDU0 I a) (call_integrateSensitivityDU0 I b)"
    and "agreeUpToCost v (call_integrateSensitivityDUf I a) (call_integrateSensitivityDUf I b)"
    and "agreeUpToCost v (call_integrateCostSensitivityDX0 I a) (call_integrateCostSensitivityDX0 I b)"
    and "agreeUpToCost v (call_integrateCostSensitivityDU0 I a) (call_integrateCostSensitivityDU0 I b)"
    and "agreeUpToCost v (call_integrateCostSensitivityDUf I a) (call_integrateCostSensitivityDUf I b)"
proof -
  from ab have i: "v (integratorCT a) = v (integratorCT b)"
    by (simp add: agreeUpToCost_def)
  from r have l: "v (linearize_CT I (integratorCT a)) = v (linearize_CT I (integratorCT b))"
    using i unfolding sensitivitiesRespectView_def by blast
  from r have f:
    "respectsView v (integrateSensitivityDX0_CT I)" "respectsView v (integrateSensitivityDU0_CT I)"
    "respectsView v (integrateSensitivityDUf_CT I)" "respectsView v (integrateCostSensitivityDX0_CT I)"
    "respectsView v (integrateCostSensitivityDU0_CT I)"
    "respectsView v (integrateCostSensitivityDUf_CT I)"
    unfolding sensitivitiesRespectView_def by blast+
  show "agreeUpToCost v (call_linearize I a) (call_linearize I b)"
    using ab l by (simp add: agreeUpToCost_def)
  show "agreeUpToCost v (call_integrateSensitivityDX0 I a) (call_integrateSensitivityDX0 I b)"
    using ab respectsViewD [OF f(1) i] by (simp add: agreeUpToCost_def)
  show "agreeUpToCost v (call_integrateSensitivityDU0 I a) (call_integrateSensitivityDU0 I b)"
    using ab respectsViewD [OF f(2) i] by (simp add: agreeUpToCost_def)
  show "agreeUpToCost v (call_integrateSensitivityDUf I a) (call_integrateSensitivityDUf I b)"
    using ab respectsViewD [OF f(3) i] by (simp add: agreeUpToCost_def)
  show "agreeUpToCost v (call_integrateCostSensitivityDX0 I a) (call_integrateCostSensitivityDX0 I b)"
    using ab respectsViewD [OF f(4) i] by (simp add: agreeUpToCost_def)
  show "agreeUpToCost v (call_integrateCostSensitivityDU0 I a) (call_integrateCostSensitivityDU0 I b)"
    using ab respectsViewD [OF f(5) i] by (simp add: agreeUpToCost_def)
  show "agreeUpToCost v (call_integrateCostSensitivityDUf I a) (call_integrateCostSensitivityDUf I b)"
    using ab respectsViewD [OF f(6) i] by (simp add: agreeUpToCost_def)
qed


lemma agree_config:
  assumes "agreeUpToCost v a b"
  shows "STATE_DIM a = STATE_DIM b" "CONTROL_DIM a = CONTROL_DIM b" "settings a = settings b"
    "shotNr a = shotNr b" "nSteps a = nSteps b" "tStart a = tStart b"
  using assms by (simp_all add: agreeUpToCost_def)

lemma agree_sensitivitiesBody:
  assumes r: "sensitivitiesRespectView I v" and ab: "agreeUpToCost v a b"
  shows "agreeUpToCost v (sensitivitiesBody I a) (sensitivitiesBody I b)"
proof -
  note c = agree_config [OF ab]
  have 1: "agreeUpToCost v
      (call_integrateSensitivityDU0 I (call_integrateSensitivityDX0 I (call_linearize I
         (a\<lparr>dXdSiBack := setIdentity (STATE_DIM a),
            dXdQiBack := setZero_matrix (STATE_DIM a) (CONTROL_DIM a)\<rparr>))))
      (call_integrateSensitivityDU0 I (call_integrateSensitivityDX0 I (call_linearize I
         (b\<lparr>dXdSiBack := setIdentity (STATE_DIM b),
            dXdQiBack := setZero_matrix (STATE_DIM b) (CONTROL_DIM b)\<rparr>))))"
    unfolding c by (intro agree_calls [OF r] agree_seed_updates ab)
  have 2: "agreeUpToCost v (call_integrateSensitivityDUf I (x\<lparr>dXdQip1Back := m\<rparr>))
      (call_integrateSensitivityDUf I (y\<lparr>dXdQip1Back := m\<rparr>))" if "agreeUpToCost v x y" for x y m
    by (intro agree_calls [OF r] agree_seed_updates that)
  show ?thesis
    using 1 2 [OF 1] c by (simp add: sensitivitiesBody_def Let_def)
qed

lemma agree_costSensitivitiesBody:
  assumes r: "sensitivitiesRespectView I v" and ab: "agreeUpToCost v a b"
  shows "agreeUpToCost v (costSensitivitiesBody I a) (costSensitivitiesBody I b)"
proof -
  note c = agree_config [OF ab]
  have 1: "agreeUpToCost v
      (call_integrateCostSensitivityDU0 I (call_integrateCostSensitivityDX0 I
         (a\<lparr>costGradientSi := setZero_vector (STATE_DIM a),
            costGradientQi := setZero_vector (CONTROL_DIM a)\<rparr>)))
      (call_integrateCostSensitivityDU0 I (call_integrateCostSensitivityDX0 I
         (b\<lparr>costGradientSi := setZero_vector (STATE_DIM b),
            costGradientQi := setZero_vector (CONTROL_DIM b)\<rparr>)))"
    unfolding c by (intro agree_calls [OF r] agree_seed_updates ab)
  have 2: "agreeUpToCost v (call_integrateCostSensitivityDUf I (x\<lparr>costGradientQip1 := m\<rparr>))
      (call_integrateCostSensitivityDUf I (y\<lparr>costGradientQip1 := m\<rparr>))" if "agreeUpToCost v x y" for x y m
    by (intro agree_calls [OF r] agree_seed_updates that)
  show ?thesis
    using 1 2 [OF 1] c by (simp add: costSensitivitiesBody_def Let_def)
qed

lemma integrateSensitivities_unfold:
  "integrateSensitivities I w c =
     (if getUpdateCount w \<noteq> sensIntegrationCount c
      then sensitivitiesBody I (integrateShot I w (c\<lparr>sensIntegrationCount := getUpdateCount w\<rparr>))
      else c)"
  by (simp add: integrateSensitivities_def sensitivitiesBody_def Let_def)

lemma integrateCostSensitivities_unfold:
  "integrateCostSensitivities I w c =
     (if getUpdateCount w \<noteq> costSensIntegrationCount c
      then costSensitivitiesBody I
             (integrateSensitivities I w (c\<lparr>costSensIntegrationCount := getUpdateCount w\<rparr>))
      else c)"
  by (simp add: integrateCostSensitivities_def costSensitivitiesBody_def Let_def)


lemma integrateShot_fresh: "integrationCount c = getUpdateCount w \<Longrightarrow> integrateShot I w c = c"
  by (simp add: integrateShot_def)

lemma integrateSensitivities_fresh:
  "sensIntegrationCount c = getUpdateCount w \<Longrightarrow> integrateSensitivities I w c = c"
  by (simp add: integrateSensitivities_def)

lemma agree_integrateShot:
  assumes "agreeUpToCost (\<lambda>i. i) a b" and "integrationCount a = integrationCount b"
  shows "agreeUpToCost (\<lambda>i. i) (integrateShot I w a) (integrateShot I w b)"
  using assms by (simp add: integrateShot_def Let_def agreeUpToCost_def)

lemma agree_integrateSensitivities:
  assumes ab: "agreeUpToCost (\<lambda>i. i) a b"
    and "integrationCount a = integrationCount b"
    and "sensIntegrationCount a = sensIntegrationCount b"
  shows "agreeUpToCost (\<lambda>i. i) (integrateSensitivities I w a) (integrateSensitivities I w b)"
proof (cases "getUpdateCount w = sensIntegrationCount b")
  case True
  with assms show ?thesis by (simp add: integrateSensitivities_unfold)
next
  case False
  have "agreeUpToCost (\<lambda>i. i)
      (integrateShot I w (a\<lparr>sensIntegrationCount := getUpdateCount w\<rparr>))
      (integrateShot I w (b\<lparr>sensIntegrationCount := getUpdateCount w\<rparr>))"
    using assms by (intro agree_integrateShot) simp_all
  then show ?thesis
    using False assms(3)
    by (simp add: integrateSensitivities_unfold agree_sensitivitiesBody sensitivitiesRespectView_id)
qed

lemma agree_integrateCost:
  assumes ct: "costTransparent I v" and fresh: "integrationCount c = getUpdateCount w"
  shows "agreeUpToCost v (integrateCost I w c) c"
proof -
  have pres: "v (fst (integrateCost_CT I i a t n d)) = v i" for i a t n d
    using ct unfolding costTransparent_def by blast
  have "integrateShot I w (c\<lparr>costIntegrationCount := getUpdateCount w\<rparr>)
      = c\<lparr>costIntegrationCount := getUpdateCount w\<rparr>"
    using fresh by (simp add: integrateShot_fresh)
  then show ?thesis
    by (simp add: integrateCost_def Let_def agreeUpToCost_def pres)
qed

lemma agree_sensitivities_after_shot:
  assumes r: "sensitivitiesRespectView I v" and ab: "agreeUpToCost v a b"
    and fa: "integrationCount a = getUpdateCount w" and fb: "integrationCount b = getUpdateCount w"
    and s: "sensIntegrationCount a = sensIntegrationCount b"
  shows "agreeUpToCost v (integrateSensitivities I w a) (integrateSensitivities I w b)"
proof (cases "getUpdateCount w = sensIntegrationCount b")
  case True
  with ab s show ?thesis by (simp add: integrateSensitivities_unfold)
next
  case False
  have "agreeUpToCost v (sensitivitiesBody I (a\<lparr>sensIntegrationCount := getUpdateCount w\<rparr>))
      (sensitivitiesBody I (b\<lparr>sensIntegrationCount := getUpdateCount w\<rparr>))"
    using ab by (intro agree_sensitivitiesBody [OF r]) simp
  then show ?thesis
    using False s fa fb by (simp add: integrateSensitivities_unfold integrateShot_fresh)
qed

lemma agree_costSensitivities_after_sensitivities:
  assumes r: "sensitivitiesRespectView I v" and ab: "agreeUpToCost v a b"
    and fa: "sensIntegrationCount a = getUpdateCount w"
    and fb: "sensIntegrationCount b = getUpdateCount w"
    and s: "costSensIntegrationCount a = costSensIntegrationCount b"
  shows "agreeUpToCost v (integrateCostSensitivities I w a) (integrateCostSensitivities I w b)"
proof (cases "getUpdateCount w = costSensIntegrationCount b")
  case True
  with ab s show ?thesis by (simp add: integrateCostSensitivities_unfold)
next
  case False
  have "agreeUpToCost v
      (costSensitivitiesBody I (a\<lparr>costSensIntegrationCount := getUpdateCount w\<rparr>))
      (costSensitivitiesBody I (b\<lparr>costSensIntegrationCount := getUpdateCount w\<rparr>))"
    using ab by (intro agree_costSensitivitiesBody [OF r]) simp
  then show ?thesis
    using False s fa fb
    by (simp add: integrateCostSensitivities_unfold integrateSensitivities_fresh)
qed

text \<open>
  Where freshness is downward closed, a method called directly does what it does when
  called after the methods it depends on.
\<close>

lemma sensitivities_after_shot:
  assumes h2: "sensIntegrationCount c = getUpdateCount w \<longrightarrow> integrationCount c = getUpdateCount w"
  shows "agreeUpToCost (\<lambda>i. i) (integrateSensitivities I w c)
           (integrateSensitivities I w (integrateShot I w c))"
proof (cases "getUpdateCount w = sensIntegrationCount c")
  case True
  with h2 have "integrateShot I w c = c" by (simp add: integrateShot_fresh)
  then show ?thesis by simp
next
  case False
  have "agreeUpToCost (\<lambda>i. i) (integrateShot I w (c\<lparr>sensIntegrationCount := getUpdateCount w\<rparr>))
      (integrateShot I w c)"
    by (intro agree_integrateShot) simp_all
  moreover have "integrateShot I w ((integrateShot I w c)\<lparr>sensIntegrationCount := getUpdateCount w\<rparr>)
      = (integrateShot I w c)\<lparr>sensIntegrationCount := getUpdateCount w\<rparr>"
    by (rule integrateShot_fresh) simp
  ultimately show ?thesis
    using False
    by (simp add: integrateSensitivities_unfold agree_sensitivitiesBody sensitivitiesRespectView_id)
qed

lemma costSensitivities_after_chain:
  assumes h1: "costSensIntegrationCount c = getUpdateCount w \<longrightarrow> sensIntegrationCount c = getUpdateCount w"
    and h2: "sensIntegrationCount c = getUpdateCount w \<longrightarrow> integrationCount c = getUpdateCount w"
  shows "agreeUpToCost (\<lambda>i. i) (integrateCostSensitivities I w c)
           (integrateCostSensitivities I w (integrateSensitivities I w (integrateShot I w c)))"
proof (cases "getUpdateCount w = costSensIntegrationCount c")
  case True
  with h1 h2 have "integrateShot I w c = c" "integrateSensitivities I w c = c"
    by (simp_all add: integrateShot_fresh integrateSensitivities_fresh)
  then show ?thesis by simp
next
  case False
  let ?u = "getUpdateCount w"
  let ?x = "integrateSensitivities I w (integrateShot I w c)"
  have 1: "agreeUpToCost (\<lambda>i. i) (integrateSensitivities I w (c\<lparr>costSensIntegrationCount := ?u\<rparr>))
      (integrateSensitivities I w c)"
    by (intro agree_integrateSensitivities) simp_all
  have 2: "integrateSensitivities I w (?x\<lparr>costSensIntegrationCount := ?u\<rparr>)
      = ?x\<lparr>costSensIntegrationCount := ?u\<rparr>"
    by (rule integrateSensitivities_fresh) simp
  have "agreeUpToCost (\<lambda>i. i) (integrateSensitivities I w (c\<lparr>costSensIntegrationCount := ?u\<rparr>)) ?x"
    using 1 sensitivities_after_shot [OF h2] by (rule agree_trans)
  then have "agreeUpToCost (\<lambda>i. i)
      (costSensitivitiesBody I (integrateSensitivities I w (c\<lparr>costSensIntegrationCount := ?u\<rparr>)))
      (costSensitivitiesBody I (?x\<lparr>costSensIntegrationCount := ?u\<rparr>))"
    by (intro agree_costSensitivitiesBody sensitivitiesRespectView_id) simp
  then show ?thesis
    using False by (simp add: integrateCostSensitivities_unfold 2)
qed

lemma agree_outputs: "agreeUpToCost v a b \<Longrightarrow> sensitivityOutputs a = sensitivityOutputs b"
  by (simp add: agreeUpToCost_def sensitivityOutputs_def)

subsection \<open>What a stale method computes\<close>

lemma agree_fields:
  assumes "agreeUpToCost (\<lambda>i. i) a b"
  shows "x_history a = x_history b" "t_history a = t_history b" "integratorCT a = integratorCT b"
    "dXdSiBack a = dXdSiBack b" "dXdQiBack a = dXdQiBack b" "dXdQip1Back a = dXdQip1Back b"
    "costGradientSi a = costGradientSi b" "costGradientQi a = costGradientQi b"
    "costGradientQip1 a = costGradientQip1 b"
  using assms by (simp_all add: agreeUpToCost_def)

lemma sensitivitiesBody_keeps [simp]:
  "integrationCount (sensitivitiesBody I c) = integrationCount c"
  "costIntegrationCount (sensitivitiesBody I c) = costIntegrationCount c"
  "sensIntegrationCount (sensitivitiesBody I c) = sensIntegrationCount c"
  "costSensIntegrationCount (sensitivitiesBody I c) = costSensIntegrationCount c"
  "x_history (sensitivitiesBody I c) = x_history c"
  "t_history (sensitivitiesBody I c) = t_history c"
  "cost (sensitivitiesBody I c) = cost c"
  "costGradientSi (sensitivitiesBody I c) = costGradientSi c"
  "costGradientQi (sensitivitiesBody I c) = costGradientQi c"
  "costGradientQip1 (sensitivitiesBody I c) = costGradientQip1 c"
  "STATE_DIM (sensitivitiesBody I c) = STATE_DIM c"
  "CONTROL_DIM (sensitivitiesBody I c) = CONTROL_DIM c"
  "settings (sensitivitiesBody I c) = settings c"
  "nSteps (sensitivitiesBody I c) = nSteps c"
  "tStart (sensitivitiesBody I c) = tStart c"
  by (simp_all add: sensitivitiesBody_def Let_def)

lemma sensitivitiesBody_writes:
  "invocations (sensitivitiesBody I c) = invocations c @ sensitivityCalls c"
  "dXdSiBack (sensitivitiesBody I c) = snd (seededDX0 I c)"
  "dXdQiBack (sensitivitiesBody I c) = snd (seededDU0 I c)"
  "dXdQip1Back (sensitivitiesBody I c) =
     (if splineType (settings c) = PIECEWISE_LINEAR then snd (seededDUf I c) else dXdQip1Back c)"
  "integratorCT (sensitivitiesBody I c) =
     (if splineType (settings c) = PIECEWISE_LINEAR then fst (seededDUf I c)
      else fst (seededDU0 I c))"
  by (simp_all add: sensitivitiesBody_def sensitivityCalls_def seededDX0_def seededDU0_def
      seededDUf_def Let_def)

lemma costSensitivitiesBody_keeps [simp]:
  "integrationCount (costSensitivitiesBody I c) = integrationCount c"
  "costIntegrationCount (costSensitivitiesBody I c) = costIntegrationCount c"
  "sensIntegrationCount (costSensitivitiesBody I c) = sensIntegrationCount c"
  "costSensIntegrationCount (costSensitivitiesBody I c) = costSensIntegrationCount c"
  "x_history (costSensitivitiesBody I c) = x_history c"
  "t_history (costSensitivitiesBody I c) = t_history c"
  "cost (costSensitivitiesBody I c) = cost c"
  "dXdSiBack (costSensitivitiesBody I c) = dXdSiBack c"
  "dXdQiBack (costSensitivitiesBody I c) = dXdQiBack c"
  "dXdQip1Back (costSensitivitiesBody I c) = dXdQip1Back c"
  "STATE_DIM (costSensitivitiesBody I c) = STATE_DIM c"
  "CONTROL_DIM (costSensitivitiesBody I c) = CONTROL_DIM c"
  "settings (costSensitivitiesBody I c) = settings c"
  "nSteps (costSensitivitiesBody I c) = nSteps c"
  "tStart (costSensitivitiesBody I c) = tStart c"
  by (simp_all add: costSensitivitiesBody_def Let_def)

lemma costSensitivitiesBody_writes:
  "invocations (costSensitivitiesBody I c) = invocations c @ costSensitivityCalls c"
  "costGradientSi (costSensitivitiesBody I c) = snd (seededCostDX0 I c)"
  "costGradientQi (costSensitivitiesBody I c) = snd (seededCostDU0 I c)"
  "costGradientQip1 (costSensitivitiesBody I c) =
     (if splineType (settings c) = PIECEWISE_LINEAR then snd (seededCostDUf I c)
      else costGradientQip1 c)"
  "integratorCT (costSensitivitiesBody I c) =
     (if splineType (settings c) = PIECEWISE_LINEAR then fst (seededCostDUf I c)
      else fst (seededCostDU0 I c))"
  by (simp_all add: costSensitivitiesBody_def costSensitivityCalls_def seededCostDX0_def
      seededCostDU0_def seededCostDUf_def Let_def)


lemma seeded_cong:
  assumes "agreeUpToCost (\<lambda>i. i) a b"
  shows "seededDX0 I a = seededDX0 I b" "seededDU0 I a = seededDU0 I b"
    "seededDUf I a = seededDUf I b" "seededCostDX0 I a = seededCostDX0 I b"
    "seededCostDU0 I a = seededCostDU0 I b" "seededCostDUf I a = seededCostDUf I b"
    "sensitivityCalls a = sensitivityCalls b" "costSensitivityCalls a = costSensitivityCalls b"
  using assms
  by (simp_all add: agreeUpToCost_def seededDX0_def seededDU0_def seededDUf_def seededCostDX0_def
      seededCostDU0_def seededCostDUf_def sensitivityCalls_def costSensitivityCalls_def)

lemma integrateShot_stale:
  assumes "getUpdateCount w \<noteq> integrationCount c"
  shows "invocations (integrateShot I w c)
      = invocations c @ [Integrate (getOptimizedState w (shotNr c))]"
    and "x_history (integrateShot I w c)
      = fst (snd (integrate_CT I (integratorCT c) (getOptimizedState w (shotNr c)) (tStart c)
          (nSteps c) (dt_sim (settings c)) (x_history c) (t_history c)))"
    and "t_history (integrateShot I w c)
      = snd (snd (integrate_CT I (integratorCT c) (getOptimizedState w (shotNr c)) (tStart c)
          (nSteps c) (dt_sim (settings c)) (x_history c) (t_history c)))"
    and "integratorCT (integrateShot I w c)
      = fst (integrate_CT I (integratorCT c) (getOptimizedState w (shotNr c)) (tStart c)
          (nSteps c) (dt_sim (settings c)) (x_history c) (t_history c))"
  using assms by (simp_all add: integrateShot_def Let_def)

lemma integrateShot_other_counters [simp]:
  "invocations (integrateShot I w (c\<lparr>costIntegrationCount := k\<rparr>)) = invocations (integrateShot I w c)"
  "invocations (integrateShot I w (c\<lparr>sensIntegrationCount := k\<rparr>)) = invocations (integrateShot I w c)"
  "invocations (integrateShot I w (c\<lparr>costSensIntegrationCount := k\<rparr>))
     = invocations (integrateShot I w c)"
  by (simp_all add: integrateShot_def Let_def)

lemma integrateShot_agree_counters:
  "agreeUpToCost (\<lambda>i. i) (integrateShot I w (c\<lparr>costIntegrationCount := k\<rparr>)) (integrateShot I w c)"
  "agreeUpToCost (\<lambda>i. i) (integrateShot I w (c\<lparr>sensIntegrationCount := k\<rparr>)) (integrateShot I w c)"
  "agreeUpToCost (\<lambda>i. i) (integrateShot I w (c\<lparr>costSensIntegrationCount := k\<rparr>))
     (integrateShot I w c)"
  by (intro agree_integrateShot; simp)+

lemma integrateCost_stale:
  assumes "getUpdateCount w \<noteq> costIntegrationCount c"
  shows "invocations (integrateCost I w c) = invocations (integrateShot I w c) @ [IntegrateCost 0]"
    and "cost (integrateCost I w c)
      = snd (integrateCost_CT I (integratorCT (integrateShot I w c)) 0 (tStart c) (nSteps c)
          (dt_sim (settings c)))"
    and "integratorCT (integrateCost I w c)
      = fst (integrateCost_CT I (integratorCT (integrateShot I w c)) 0 (tStart c) (nSteps c)
          (dt_sim (settings c)))"
    and "x_history (integrateCost I w c) = x_history (integrateShot I w c)"
    and "t_history (integrateCost I w c) = t_history (integrateShot I w c)"
  using assms agree_fields [OF integrateShot_agree_counters(1) [where I = I and w = w and c = c and k = "getUpdateCount w"]]
  by (simp_all add: integrateCost_def Let_def)

lemma integrateSensitivities_stale:
  assumes "getUpdateCount w \<noteq> sensIntegrationCount c"
  shows "invocations (integrateSensitivities I w c)
      = invocations (integrateShot I w c) @ sensitivityCalls c"
    and "x_history (integrateSensitivities I w c) = x_history (integrateShot I w c)"
    and "t_history (integrateSensitivities I w c) = t_history (integrateShot I w c)"
    and "dXdSiBack (integrateSensitivities I w c) = snd (seededDX0 I (integrateShot I w c))"
    and "dXdQiBack (integrateSensitivities I w c) = snd (seededDU0 I (integrateShot I w c))"
    and "dXdQip1Back (integrateSensitivities I w c) =
      (if splineType (settings c) = PIECEWISE_LINEAR
       then snd (seededDUf I (integrateShot I w c)) else dXdQip1Back c)"
    and "integratorCT (integrateSensitivities I w c) =
      (if splineType (settings c) = PIECEWISE_LINEAR
       then fst (seededDUf I (integrateShot I w c)) else fst (seededDU0 I (integrateShot I w c)))"
proof -
  let ?x = "integrateShot I w (c\<lparr>sensIntegrationCount := getUpdateCount w\<rparr>)"
  have a: "agreeUpToCost (\<lambda>i. i) ?x (integrateShot I w c)"
    by (rule integrateShot_agree_counters)
  have u: "integrateSensitivities I w c = sensitivitiesBody I ?x"
    using assms by (simp add: integrateSensitivities_unfold)
  have k: "sensitivityCalls (integrateShot I w c) = sensitivityCalls c"
    by (simp add: sensitivityCalls_def)
  show "invocations (integrateSensitivities I w c)
      = invocations (integrateShot I w c) @ sensitivityCalls c"
    by (simp add: u sensitivitiesBody_writes seeded_cong [OF a] k)
  show "x_history (integrateSensitivities I w c) = x_history (integrateShot I w c)"
    by (simp add: u agree_fields [OF a])
  show "t_history (integrateSensitivities I w c) = t_history (integrateShot I w c)"
    by (simp add: u agree_fields [OF a])
  show "dXdSiBack (integrateSensitivities I w c) = snd (seededDX0 I (integrateShot I w c))"
    by (simp add: u sensitivitiesBody_writes seeded_cong [OF a])
  show "dXdQiBack (integrateSensitivities I w c) = snd (seededDU0 I (integrateShot I w c))"
    by (simp add: u sensitivitiesBody_writes seeded_cong [OF a])
  show "dXdQip1Back (integrateSensitivities I w c) =
      (if splineType (settings c) = PIECEWISE_LINEAR
       then snd (seededDUf I (integrateShot I w c)) else dXdQip1Back c)"
    by (simp add: u sensitivitiesBody_writes seeded_cong [OF a])
  show "integratorCT (integrateSensitivities I w c) =
      (if splineType (settings c) = PIECEWISE_LINEAR
       then fst (seededDUf I (integrateShot I w c)) else fst (seededDU0 I (integrateShot I w c)))"
    by (simp add: u sensitivitiesBody_writes seeded_cong [OF a])
qed

lemma integrateSensitivities_other_counter [simp]:
  "invocations (integrateSensitivities I w (c\<lparr>costSensIntegrationCount := k\<rparr>))
     = invocations (integrateSensitivities I w c)"
proof (cases "getUpdateCount w = sensIntegrationCount c")
  case True
  then show ?thesis by (simp add: integrateSensitivities_fresh)
next
  case False
  then show ?thesis
    by (simp add: integrateSensitivities_stale(1) sensitivityCalls_def)
qed

lemma integrateCostSensitivities_stale:
  assumes "getUpdateCount w \<noteq> costSensIntegrationCount c"
  shows "invocations (integrateCostSensitivities I w c)
      = invocations (integrateSensitivities I w c) @ costSensitivityCalls c"
    and "x_history (integrateCostSensitivities I w c) = x_history (integrateSensitivities I w c)"
    and "t_history (integrateCostSensitivities I w c) = t_history (integrateSensitivities I w c)"
    and "dXdSiBack (integrateCostSensitivities I w c) = dXdSiBack (integrateSensitivities I w c)"
    and "dXdQiBack (integrateCostSensitivities I w c) = dXdQiBack (integrateSensitivities I w c)"
    and "dXdQip1Back (integrateCostSensitivities I w c) = dXdQip1Back (integrateSensitivities I w c)"
    and "costGradientSi (integrateCostSensitivities I w c)
      = snd (seededCostDX0 I (integrateSensitivities I w c))"
    and "costGradientQi (integrateCostSensitivities I w c)
      = snd (seededCostDU0 I (integrateSensitivities I w c))"
    and "costGradientQip1 (integrateCostSensitivities I w c) =
      (if splineType (settings c) = PIECEWISE_LINEAR
       then snd (seededCostDUf I (integrateSensitivities I w c)) else costGradientQip1 c)"
proof -
  let ?x = "integrateSensitivities I w (c\<lparr>costSensIntegrationCount := getUpdateCount w\<rparr>)"
  have a: "agreeUpToCost (\<lambda>i. i) ?x (integrateSensitivities I w c)"
    by (intro agree_integrateSensitivities) simp_all
  have u: "integrateCostSensitivities I w c = costSensitivitiesBody I ?x"
    using assms by (simp add: integrateCostSensitivities_unfold)
  have k: "costSensitivityCalls (integrateSensitivities I w c) = costSensitivityCalls c"
    by (simp add: costSensitivityCalls_def)
  show "invocations (integrateCostSensitivities I w c)
      = invocations (integrateSensitivities I w c) @ costSensitivityCalls c"
    by (simp add: u costSensitivitiesBody_writes seeded_cong [OF a] k)
  show "x_history (integrateCostSensitivities I w c) = x_history (integrateSensitivities I w c)"
    by (simp add: u agree_fields [OF a])
  show "t_history (integrateCostSensitivities I w c) = t_history (integrateSensitivities I w c)"
    by (simp add: u agree_fields [OF a])
  show "dXdSiBack (integrateCostSensitivities I w c) = dXdSiBack (integrateSensitivities I w c)"
    by (simp add: u agree_fields [OF a])
  show "dXdQiBack (integrateCostSensitivities I w c) = dXdQiBack (integrateSensitivities I w c)"
    by (simp add: u agree_fields [OF a])
  show "dXdQip1Back (integrateCostSensitivities I w c) = dXdQip1Back (integrateSensitivities I w c)"
    by (simp add: u agree_fields [OF a])
  show "costGradientSi (integrateCostSensitivities I w c)
      = snd (seededCostDX0 I (integrateSensitivities I w c))"
    by (simp add: u costSensitivitiesBody_writes seeded_cong [OF a])
  show "costGradientQi (integrateCostSensitivities I w c)
      = snd (seededCostDU0 I (integrateSensitivities I w c))"
    by (simp add: u costSensitivitiesBody_writes seeded_cong [OF a])
  show "costGradientQip1 (integrateCostSensitivities I w c) =
      (if splineType (settings c) = PIECEWISE_LINEAR
       then snd (seededCostDUf I (integrateSensitivities I w c)) else costGradientQip1 c)"
    by (simp add: u costSensitivitiesBody_writes seeded_cong [OF a])
qed


lemma integrateCost_fresh:
  "costIntegrationCount c = getUpdateCount w \<Longrightarrow> integrateCost I w c = c"
  by (simp add: integrateCost_def)

lemma integrateCostSensitivities_fresh:
  "costSensIntegrationCount c = getUpdateCount w \<Longrightarrow> integrateCostSensitivities I w c = c"
  by (simp add: integrateCostSensitivities_def)

lemmas fresh_rules =
  integrateShot_fresh integrateCost_fresh integrateSensitivities_fresh
  integrateCostSensitivities_fresh

lemmas stale_rules =
  integrateShot_stale integrateCost_stale integrateSensitivities_stale
  integrateCostSensitivities_stale

lemmas seeded_defs =
  seededDX0_def seededDU0_def seededDUf_def seededCostDX0_def seededCostDU0_def seededCostDUf_def
  sensitivityCalls_def costSensitivityCalls_def

lemma invocations_grow:
  "length (invocations c) \<le> length (invocations (integrateShot I w c))"
  "length (invocations c) \<le> length (invocations (integrateSensitivities I w c))"
proof -
  show 1: "length (invocations c) \<le> length (invocations (integrateShot I w c))" for c :: "'a ShotContainer"
    by (cases "getUpdateCount w = integrationCount c") (simp_all add: fresh_rules stale_rules)
  show "length (invocations c) \<le> length (invocations (integrateSensitivities I w c))"
    using 1 [of c]
    by (cases "getUpdateCount w = sensIntegrationCount c") (simp_all add: fresh_rules stale_rules)
qed

lemma example_matrices:
  "setIdentity 2 = [[1, 0], [0, 1]]" "setZero_matrix 2 (Suc 0) = [[0], [0]]"
  "setZero_vector 2 = [0, 0]" "setZero_vector (Suc 0) = [0]"
  by (simp_all add: setIdentity_def setZero_matrix_def setZero_vector_def numeral_2_eq_2)

lemma example_stale:
  "getUpdateCount (exampleVector 2) \<noteq> integrationCount exampleContainer"
  "getUpdateCount (exampleVector 2) \<noteq> costIntegrationCount exampleContainer"
  "getUpdateCount (exampleVector 2) \<noteq> sensIntegrationCount exampleContainer"
  "getUpdateCount (exampleVector 2) \<noteq> costSensIntegrationCount exampleContainer"
  by (simp_all add: example_simps)

lemma example_shot:
  "x_history (integrateShot exampleIntegrator (exampleVector 2) exampleContainer) = [[2, 0], [2, 0]]"
  "t_history (integrateShot exampleIntegrator (exampleVector 2) exampleContainer) = [0, 0]"
  "integratorCT (integrateShot exampleIntegrator (exampleVector 2) exampleContainer) = (1, 0)"
  "invocations (integrateShot exampleIntegrator (exampleVector 2) exampleContainer)
     = [SetLinearSystem, SetCostFunction, Integrate [2, 0]]"
  by (simp_all add: integrateShot_stale [OF example_stale(1)] example_simps)

lemma example_sensitivities:
  "x_history (integrateSensitivities exampleIntegrator (exampleVector 2) exampleContainer)
     = [[2, 0], [2, 0]]"
  "t_history (integrateSensitivities exampleIntegrator (exampleVector 2) exampleContainer) = [0, 0]"
  "dXdSiBack (integrateSensitivities exampleIntegrator (exampleVector 2) exampleContainer)
     = [[1, 0], [0, 1]]"
  "dXdQiBack (integrateSensitivities exampleIntegrator (exampleVector 2) exampleContainer)
     = [[0], [0]]"
  "dXdQip1Back (integrateSensitivities exampleIntegrator (exampleVector 2) exampleContainer)
     = [[0], [0]]"
  "invocations (integrateSensitivities exampleIntegrator (exampleVector 2) exampleContainer)
     = [SetLinearSystem, SetCostFunction, Integrate [2, 0], Linearize,
        IntegrateSensitivityDX0 [[1, 0], [0, 1]], IntegrateSensitivityDU0 [[0], [0]],
        IntegrateSensitivityDUf [[0], [0]]]"
  by (simp_all add: integrateSensitivities_stale [OF example_stale(3)] example_shot seeded_defs
      example_simps example_matrices)

lemma example_costSensitivities:
  "costGradientSi (integrateCostSensitivities exampleIntegrator (exampleVector 2) exampleContainer)
     = [0, 0]"
  "costGradientQi (integrateCostSensitivities exampleIntegrator (exampleVector 2) exampleContainer)
     = [0]"
  "costGradientQip1 (integrateCostSensitivities exampleIntegrator (exampleVector 2) exampleContainer)
     = [0]"
  "invocations (integrateCostSensitivities exampleIntegrator (exampleVector 2) exampleContainer)
     = [SetLinearSystem, SetCostFunction, Integrate [2, 0], Linearize,
        IntegrateSensitivityDX0 [[1, 0], [0, 1]], IntegrateSensitivityDU0 [[0], [0]],
        IntegrateSensitivityDUf [[0], [0]], IntegrateCostSensitivityDX0 [0, 0],
        IntegrateCostSensitivityDU0 [0], IntegrateCostSensitivityDUf [0]]"
  by (simp_all add: integrateCostSensitivities_stale [OF example_stale(4)] example_sensitivities
      seeded_defs example_simps example_matrices)

lemma example_stale_prerequisite:
  fixes A B :: "(nat \<times> real) ShotContainer"
  defines "A \<equiv> integrateSensitivities exampleIntegrator (exampleVector 2) exampleContainer"
  defines "B \<equiv> integrateShot exampleIntegrator (exampleVector 3) A"
  shows "counters B = (3, 0, 2, 0)"
    and "x_history B = [[3, 0], [3, 0]]"
    and "counters (integrateCostSensitivities exampleIntegrator (exampleVector 2) B) = (3, 0, 2, 2)"
    and "x_history (integrateCostSensitivities exampleIntegrator (exampleVector 2) B)
      = [[3, 0], [3, 0]]"
    and "x_history (integrateShot exampleIntegrator (exampleVector 2) B) = [[2, 0], [2, 0]]"
proof -
  let ?I = exampleIntegrator
  let ?w2 = "exampleVector 2" and ?w3 = "exampleVector 3"
  have u: "getUpdateCount ?w2 = 2" "getUpdateCount ?w3 = 3"
    by (simp_all add: example_simps)
  have cA: "counters A = (2, 0, 2, 0)"
    by (simp add: A_def counters_def u example_simps)
  have kA: "nSteps A = 1" "shotNr A = 0"
    by (simp_all add: A_def example_simps)
  show cB: "counters B = (3, 0, 2, 0)"
    using cA by (simp add: B_def counters_def u)
  have sA: "getUpdateCount ?w3 \<noteq> integrationCount A"
    using cA by (simp add: counters_def u)
  show xB: "x_history B = [[3, 0], [3, 0]]"
    by (simp add: B_def integrateShot_stale [OF sA] kA example_simps)
  have kB: "nSteps B = 1" "shotNr B = 0"
    by (simp_all add: B_def kA)
  have sB: "getUpdateCount ?w2 \<noteq> costSensIntegrationCount B"
    "getUpdateCount ?w2 \<noteq> integrationCount B"
    using cB by (simp_all add: counters_def u)
  have fB: "integrateSensitivities ?I ?w2 B = B"
    using cB by (intro integrateSensitivities_fresh) (simp add: counters_def u)
  show "counters (integrateCostSensitivities ?I ?w2 B) = (3, 0, 2, 2)"
    using cB by (simp add: counters_def u)
  show "x_history (integrateCostSensitivities ?I ?w2 B) = [[3, 0], [3, 0]]"
    by (simp add: integrateCostSensitivities_stale(2) [OF sB(1)] fB xB)
  show "x_history (integrateShot ?I ?w2 B) = [[2, 0], [2, 0]]"
    by (simp add: integrateShot_stale [OF sB(2)] kB example_simps)
qed

text \<open>
  Claim C2 says that a method whose counter differs from the update count recomputes its
  outputs and also every stale method it depends on. \<open>integrateCostSensitivities\<close> depends
  on \<open>integrateSensitivities\<close> and, through it, on \<open>integrateShot\<close>, but reaches
  \<open>integrateShot\<close> only inside the guarded branch of \<open>integrateSensitivities\<close>. Take the
  container after \<open>integrateSensitivities\<close> at update count 2 and \<open>integrateShot\<close> at update
  count 3: the counters of the state integration, the cost, the sensitivities and the cost
  sensitivities are 3, 0, 2 and 0. For an optimisation vector at update count 2 the cost
  sensitivities and the state integration are both stale. \<open>integrateCostSensitivities\<close>
  recomputes the gradients, finds the sensitivities at count 2 and returns from
  \<open>integrateSensitivities\<close> at once: the counter of the state integration is still 3, and
  the state history is the one integrated from the state at count 3, not the one
  \<open>integrateShot\<close> gives at count 2.
\<close>

theorem stale_prerequisite_kept_counterexample:
  "construct exampleIntegrator 2 1 exampleGrid 0 exampleSettings [] [] [] = Inr exampleContainer
   \<and> getUpdateCount (exampleVector 2) = 2
   \<and> counters (runCalls exampleIntegrator
        [(Sensitivities, exampleVector 2), (Shot, exampleVector 3)] exampleContainer)
       = (3, 0, 2, 0)
   \<and> counters (integrateCostSensitivities exampleIntegrator (exampleVector 2)
        (runCalls exampleIntegrator
           [(Sensitivities, exampleVector 2), (Shot, exampleVector 3)] exampleContainer))
       = (3, 0, 2, 2)
   \<and> x_history (integrateCostSensitivities exampleIntegrator (exampleVector 2)
        (runCalls exampleIntegrator
           [(Sensitivities, exampleVector 2), (Shot, exampleVector 3)] exampleContainer))
       = [[3, 0], [3, 0]]
   \<and> x_history (integrateShot exampleIntegrator (exampleVector 2)
        (runCalls exampleIntegrator
           [(Sensitivities, exampleVector 2), (Shot, exampleVector 3)] exampleContainer))
       = [[2, 0], [2, 0]]"
  using example_construct
  by (simp add: example_stale_prerequisite example_vector_simps)

text \<open>
  Claim C2, amended. A method whose counter differs from the update count of the
  optimisation vector recomputes: it sets its counter to the update count, calls the method
  it calls directly (\<open>integrateShot\<close> for the cost and the sensitivities,
  \<open>integrateSensitivities\<close> for the cost sensitivities), which recomputes in turn when its
  own counter differs, then makes its own calls on the integrator and stores what they
  return. So its counter equals the update count afterwards, as does the counter of the
  method it called, the calls it makes are appended to those of the method it called, and
  its outputs are the integrator's results of this call and not the values cached before.
  \<open>integrateCostSensitivities\<close> brings the state integration to the update count as well,
  with the state history \<open>integrateShot\<close> gives, provided the state integration is fresh
  whenever the sensitivities are. In every case at least one call on the integrator is
  made.
\<close>

theorem stale_tier_recomputes:
  "(getUpdateCount w \<noteq> integrationCount c \<longrightarrow>
      integrationCount (integrateShot I w c) = getUpdateCount w
      \<and> invocations (integrateShot I w c)
          = invocations c @ [Integrate (getOptimizedState w (shotNr c))]
      \<and> (integratorCT (integrateShot I w c), x_history (integrateShot I w c),
           t_history (integrateShot I w c))
          = integrate_CT I (integratorCT c) (getOptimizedState w (shotNr c)) (tStart c) (nSteps c)
              (dt_sim (settings c)) (x_history c) (t_history c))
   \<and> (getUpdateCount w \<noteq> costIntegrationCount c \<longrightarrow>
      costIntegrationCount (integrateCost I w c) = getUpdateCount w
      \<and> integrationCount (integrateCost I w c) = getUpdateCount w
      \<and> invocations (integrateCost I w c) = invocations (integrateShot I w c) @ [IntegrateCost 0]
      \<and> x_history (integrateCost I w c) = x_history (integrateShot I w c)
      \<and> t_history (integrateCost I w c) = t_history (integrateShot I w c)
      \<and> cost (integrateCost I w c)
          = snd (integrateCost_CT I (integratorCT (integrateShot I w c)) 0 (tStart c) (nSteps c)
              (dt_sim (settings c))))
   \<and> (getUpdateCount w \<noteq> sensIntegrationCount c \<longrightarrow>
      sensIntegrationCount (integrateSensitivities I w c) = getUpdateCount w
      \<and> integrationCount (integrateSensitivities I w c) = getUpdateCount w
      \<and> invocations (integrateSensitivities I w c)
          = invocations (integrateShot I w c) @ sensitivityCalls c
      \<and> x_history (integrateSensitivities I w c) = x_history (integrateShot I w c)
      \<and> t_history (integrateSensitivities I w c) = t_history (integrateShot I w c)
      \<and> dXdSiBack (integrateSensitivities I w c) = snd (seededDX0 I (integrateShot I w c))
      \<and> dXdQiBack (integrateSensitivities I w c) = snd (seededDU0 I (integrateShot I w c)))
   \<and> (getUpdateCount w \<noteq> costSensIntegrationCount c \<longrightarrow>
      costSensIntegrationCount (integrateCostSensitivities I w c) = getUpdateCount w
      \<and> sensIntegrationCount (integrateCostSensitivities I w c) = getUpdateCount w
      \<and> invocations (integrateCostSensitivities I w c)
          = invocations (integrateSensitivities I w c) @ costSensitivityCalls c
      \<and> x_history (integrateCostSensitivities I w c) = x_history (integrateSensitivities I w c)
      \<and> t_history (integrateCostSensitivities I w c) = t_history (integrateSensitivities I w c)
      \<and> dXdSiBack (integrateCostSensitivities I w c) = dXdSiBack (integrateSensitivities I w c)
      \<and> dXdQiBack (integrateCostSensitivities I w c) = dXdQiBack (integrateSensitivities I w c)
      \<and> dXdQip1Back (integrateCostSensitivities I w c)
          = dXdQip1Back (integrateSensitivities I w c)
      \<and> costGradientSi (integrateCostSensitivities I w c)
          = snd (seededCostDX0 I (integrateSensitivities I w c))
      \<and> costGradientQi (integrateCostSensitivities I w c)
          = snd (seededCostDU0 I (integrateSensitivities I w c))
      \<and> ((sensIntegrationCount c = getUpdateCount w \<longrightarrow> integrationCount c = getUpdateCount w)
           \<longrightarrow>
           integrationCount (integrateCostSensitivities I w c) = getUpdateCount w
           \<and> x_history (integrateCostSensitivities I w c) = x_history (integrateShot I w c)
           \<and> t_history (integrateCostSensitivities I w c) = t_history (integrateShot I w c)))
   \<and> (\<forall>t. getUpdateCount w \<noteq> tierCount t c \<longrightarrow>
          tierCount t (runTier I w t c) = getUpdateCount w
          \<and> length (invocations c) < length (invocations (runTier I w t c)))"
proof -
  have shot: "getUpdateCount w \<noteq> integrationCount c \<longrightarrow>
      integrationCount (integrateShot I w c) = getUpdateCount w
      \<and> invocations (integrateShot I w c)
          = invocations c @ [Integrate (getOptimizedState w (shotNr c))]
      \<and> (integratorCT (integrateShot I w c), x_history (integrateShot I w c),
           t_history (integrateShot I w c))
          = integrate_CT I (integratorCT c) (getOptimizedState w (shotNr c)) (tStart c) (nSteps c)
              (dt_sim (settings c)) (x_history c) (t_history c)"
    by (simp add: integrateShot_stale prod_eq_iff)
  have cst: "getUpdateCount w \<noteq> costIntegrationCount c \<longrightarrow>
      costIntegrationCount (integrateCost I w c) = getUpdateCount w
      \<and> integrationCount (integrateCost I w c) = getUpdateCount w
      \<and> invocations (integrateCost I w c) = invocations (integrateShot I w c) @ [IntegrateCost 0]
      \<and> x_history (integrateCost I w c) = x_history (integrateShot I w c)
      \<and> t_history (integrateCost I w c) = t_history (integrateShot I w c)
      \<and> cost (integrateCost I w c)
          = snd (integrateCost_CT I (integratorCT (integrateShot I w c)) 0 (tStart c) (nSteps c)
              (dt_sim (settings c)))"
    by (simp add: integrateCost_stale)
  have sns: "getUpdateCount w \<noteq> sensIntegrationCount c \<longrightarrow>
      sensIntegrationCount (integrateSensitivities I w c) = getUpdateCount w
      \<and> integrationCount (integrateSensitivities I w c) = getUpdateCount w
      \<and> invocations (integrateSensitivities I w c)
          = invocations (integrateShot I w c) @ sensitivityCalls c
      \<and> x_history (integrateSensitivities I w c) = x_history (integrateShot I w c)
      \<and> t_history (integrateSensitivities I w c) = t_history (integrateShot I w c)
      \<and> dXdSiBack (integrateSensitivities I w c) = snd (seededDX0 I (integrateShot I w c))
      \<and> dXdQiBack (integrateSensitivities I w c) = snd (seededDU0 I (integrateShot I w c))"
    by (simp add: integrateSensitivities_stale)
  have csn: "getUpdateCount w \<noteq> costSensIntegrationCount c \<longrightarrow>
      costSensIntegrationCount (integrateCostSensitivities I w c) = getUpdateCount w
      \<and> sensIntegrationCount (integrateCostSensitivities I w c) = getUpdateCount w
      \<and> invocations (integrateCostSensitivities I w c)
          = invocations (integrateSensitivities I w c) @ costSensitivityCalls c
      \<and> x_history (integrateCostSensitivities I w c) = x_history (integrateSensitivities I w c)
      \<and> t_history (integrateCostSensitivities I w c) = t_history (integrateSensitivities I w c)
      \<and> dXdSiBack (integrateCostSensitivities I w c) = dXdSiBack (integrateSensitivities I w c)
      \<and> dXdQiBack (integrateCostSensitivities I w c) = dXdQiBack (integrateSensitivities I w c)
      \<and> dXdQip1Back (integrateCostSensitivities I w c)
          = dXdQip1Back (integrateSensitivities I w c)
      \<and> costGradientSi (integrateCostSensitivities I w c)
          = snd (seededCostDX0 I (integrateSensitivities I w c))
      \<and> costGradientQi (integrateCostSensitivities I w c)
          = snd (seededCostDU0 I (integrateSensitivities I w c))"
    by (simp add: integrateCostSensitivities_stale)
  have chain: "integrationCount (integrateCostSensitivities I w c) = getUpdateCount w
      \<and> x_history (integrateCostSensitivities I w c) = x_history (integrateShot I w c)
      \<and> t_history (integrateCostSensitivities I w c) = t_history (integrateShot I w c)"
    if s: "getUpdateCount w \<noteq> costSensIntegrationCount c"
      and d: "sensIntegrationCount c = getUpdateCount w \<longrightarrow> integrationCount c = getUpdateCount w"
  proof (cases "sensIntegrationCount c = getUpdateCount w")
    case True
    with d have i: "integrationCount c = getUpdateCount w"
      by simp
    from True i s show ?thesis
      by (simp add: integrateCostSensitivities_stale(2,3) integrateSensitivities_fresh
          integrateShot_fresh)
  next
    case False
    then have "getUpdateCount w \<noteq> sensIntegrationCount c"
      by simp
    with s show ?thesis
      by (simp add: integrateCostSensitivities_stale(2,3) integrateSensitivities_stale(2,3))
  qed
  have grow: "tierCount t (runTier I w t c) = getUpdateCount w
      \<and> length (invocations c) < length (invocations (runTier I w t c))"
    if "getUpdateCount w \<noteq> tierCount t c" for t
  proof (cases t)
    case Shot
    with that show ?thesis by (simp add: integrateShot_stale)
  next
    case Cost
    with that invocations_grow(1) [of c I w] show ?thesis by (simp add: integrateCost_stale)
  next
    case Sensitivities
    with that invocations_grow(1) [of c I w] show ?thesis
      by (simp add: integrateSensitivities_stale sensitivityCalls_def)
  next
    case CostSensitivities
    with that invocations_grow(2) [of c I w] show ?thesis
      by (simp add: integrateCostSensitivities_stale costSensitivityCalls_def)
  qed
  from shot cst sns csn chain grow show ?thesis by blast
qed

theorem stale_tier_recomputes_witness:
  "getUpdateCount (exampleVector 2) \<noteq> integrationCount exampleContainer
   \<and> getUpdateCount (exampleVector 2) \<noteq> costIntegrationCount exampleContainer
   \<and> getUpdateCount (exampleVector 2) \<noteq> sensIntegrationCount exampleContainer
   \<and> getUpdateCount (exampleVector 2) \<noteq> costSensIntegrationCount exampleContainer
   \<and> integrationCount (integrateShot exampleIntegrator (exampleVector 2) exampleContainer) = 2
   \<and> invocations (integrateShot exampleIntegrator (exampleVector 2) exampleContainer)
       = [SetLinearSystem, SetCostFunction, Integrate [2, 0]]
   \<and> invocations (integrateCost exampleIntegrator (exampleVector 2) exampleContainer)
       = [SetLinearSystem, SetCostFunction, Integrate [2, 0], IntegrateCost 0]
   \<and> costIntegrationCount (integrateCost exampleIntegrator (exampleVector 2) exampleContainer) = 2
   \<and> sensIntegrationCount (integrateSensitivities exampleIntegrator (exampleVector 2) exampleContainer)
       = 2
   \<and> x_history (integrateSensitivities exampleIntegrator (exampleVector 2) exampleContainer)
       = [[2, 0], [2, 0]]
   \<and> costSensIntegrationCount
        (integrateCostSensitivities exampleIntegrator (exampleVector 2) exampleContainer) = 2
   \<and> dXdSiBack (integrateCostSensitivities exampleIntegrator (exampleVector 2) exampleContainer)
       = [[1, 0], [0, 1]]
   \<and> integrationCount
        (integrateCostSensitivities exampleIntegrator (exampleVector 2) exampleContainer) = 2
   \<and> x_history (integrateCostSensitivities exampleIntegrator (exampleVector 2) exampleContainer)
       = [[2, 0], [2, 0]]
   \<and> length (invocations exampleContainer)
       < length (invocations (runTier exampleIntegrator (exampleVector 2) CostSensitivities
           exampleContainer))"
proof -
  note t = stale_tier_recomputes [of "exampleVector 2" exampleContainer exampleIntegrator]
  have u: "getUpdateCount (exampleVector 2) = 2"
    by (simp add: example_simps)
  from t example_stale
  have "tierCount CostSensitivities exampleContainer \<noteq> getUpdateCount (exampleVector 2) \<longrightarrow>
      length (invocations exampleContainer)
       < length (invocations (runTier exampleIntegrator (exampleVector 2) CostSensitivities
           exampleContainer))"
    by metis
  then have g: "length (invocations exampleContainer)
       < length (invocations (runTier exampleIntegrator (exampleVector 2) CostSensitivities
           exampleContainer))"
    using example_stale(4) by simp
  have h: "sensIntegrationCount exampleContainer = getUpdateCount (exampleVector 2) \<longrightarrow>
      integrationCount exampleContainer = getUpdateCount (exampleVector 2)"
    by (simp add: example_simps)
  from t example_stale h
  have "invocations (integrateCost exampleIntegrator (exampleVector 2) exampleContainer)
      = invocations (integrateShot exampleIntegrator (exampleVector 2) exampleContainer)
          @ [IntegrateCost 0]"
    and "dXdSiBack (integrateCostSensitivities exampleIntegrator (exampleVector 2) exampleContainer)
      = dXdSiBack (integrateSensitivities exampleIntegrator (exampleVector 2) exampleContainer)"
    and "integrationCount
        (integrateCostSensitivities exampleIntegrator (exampleVector 2) exampleContainer)
      = getUpdateCount (exampleVector 2)"
    and "x_history (integrateCostSensitivities exampleIntegrator (exampleVector 2) exampleContainer)
      = x_history (integrateShot exampleIntegrator (exampleVector 2) exampleContainer)"
    by blast+
  with g example_stale show ?thesis
    by (simp add: u example_shot example_sensitivities)
qed

subsection \<open>Seeds and the end control\<close>

text \<open>
  Claim C6. When \<open>integrateSensitivities\<close> recomputes, the sensitivity with respect to the
  initial state is what the integrator returns for the identity matrix, and the sensitivity
  with respect to the start control what it returns for the zero matrix, both integrated
  after the linearisation on the trajectory \<open>integrateShot\<close> left: the calls are
  \<open>linearize\<close>, \<open>integrateSensitivityDX0\<close> on the identity and
  \<open>integrateSensitivityDU0\<close> on zero, in this order. The sensitivity with respect to the
  end control is integrated, from zero, exactly when the spline type is piecewise linear,
  and is left as it was otherwise. \<open>integrateCostSensitivities\<close> does the same for the cost
  gradients, from zero vectors, and integrates the gradient with respect to the end control
  exactly when the spline type is piecewise linear.
\<close>

theorem sensitivity_seeds:
  "(getUpdateCount w \<noteq> sensIntegrationCount c \<longrightarrow>
      dXdSiBack (integrateSensitivities I w c) = snd (seededDX0 I (integrateShot I w c))
      \<and> dXdQiBack (integrateSensitivities I w c) = snd (seededDU0 I (integrateShot I w c))
      \<and> invocations (integrateSensitivities I w c)
          = invocations (integrateShot I w c)
            @ [Linearize,
               IntegrateSensitivityDX0 (setIdentity (STATE_DIM c)),
               IntegrateSensitivityDU0 (setZero_matrix (STATE_DIM c) (CONTROL_DIM c))]
            @ (if splineType (settings c) = PIECEWISE_LINEAR
               then [IntegrateSensitivityDUf (setZero_matrix (STATE_DIM c) (CONTROL_DIM c))]
               else [])
      \<and> (splineType (settings c) = PIECEWISE_LINEAR \<longrightarrow>
            dXdQip1Back (integrateSensitivities I w c) = snd (seededDUf I (integrateShot I w c)))
      \<and> (splineType (settings c) \<noteq> PIECEWISE_LINEAR \<longrightarrow>
            dXdQip1Back (integrateSensitivities I w c) = dXdQip1Back c)
      \<and> ((\<exists>call \<in> set (drop (length (invocations (integrateShot I w c)))
                           (invocations (integrateSensitivities I w c))).
              isIntegrateSensitivityDUf call)
           = (splineType (settings c) = PIECEWISE_LINEAR)))
   \<and> (getUpdateCount w \<noteq> costSensIntegrationCount c \<longrightarrow>
      costGradientSi (integrateCostSensitivities I w c)
          = snd (seededCostDX0 I (integrateSensitivities I w c))
      \<and> costGradientQi (integrateCostSensitivities I w c)
          = snd (seededCostDU0 I (integrateSensitivities I w c))
      \<and> invocations (integrateCostSensitivities I w c)
          = invocations (integrateSensitivities I w c)
            @ [IntegrateCostSensitivityDX0 (setZero_vector (STATE_DIM c)),
               IntegrateCostSensitivityDU0 (setZero_vector (CONTROL_DIM c))]
            @ (if splineType (settings c) = PIECEWISE_LINEAR
               then [IntegrateCostSensitivityDUf (setZero_vector (CONTROL_DIM c))] else [])
      \<and> (splineType (settings c) = PIECEWISE_LINEAR \<longrightarrow>
            costGradientQip1 (integrateCostSensitivities I w c)
              = snd (seededCostDUf I (integrateSensitivities I w c)))
      \<and> (splineType (settings c) \<noteq> PIECEWISE_LINEAR \<longrightarrow>
            costGradientQip1 (integrateCostSensitivities I w c) = costGradientQip1 c)
      \<and> ((\<exists>call \<in> set (drop (length (invocations (integrateSensitivities I w c)))
                           (invocations (integrateCostSensitivities I w c))).
              isIntegrateCostSensitivityDUf call)
           = (splineType (settings c) = PIECEWISE_LINEAR)))"
proof (intro conjI)
  show "getUpdateCount w \<noteq> sensIntegrationCount c \<longrightarrow>
      dXdSiBack (integrateSensitivities I w c) = snd (seededDX0 I (integrateShot I w c))
      \<and> dXdQiBack (integrateSensitivities I w c) = snd (seededDU0 I (integrateShot I w c))
      \<and> invocations (integrateSensitivities I w c)
          = invocations (integrateShot I w c)
            @ [Linearize,
               IntegrateSensitivityDX0 (setIdentity (STATE_DIM c)),
               IntegrateSensitivityDU0 (setZero_matrix (STATE_DIM c) (CONTROL_DIM c))]
            @ (if splineType (settings c) = PIECEWISE_LINEAR
               then [IntegrateSensitivityDUf (setZero_matrix (STATE_DIM c) (CONTROL_DIM c))]
               else [])
      \<and> (splineType (settings c) = PIECEWISE_LINEAR \<longrightarrow>
            dXdQip1Back (integrateSensitivities I w c) = snd (seededDUf I (integrateShot I w c)))
      \<and> (splineType (settings c) \<noteq> PIECEWISE_LINEAR \<longrightarrow>
            dXdQip1Back (integrateSensitivities I w c) = dXdQip1Back c)
      \<and> ((\<exists>call \<in> set (drop (length (invocations (integrateShot I w c)))
                           (invocations (integrateSensitivities I w c))).
              isIntegrateSensitivityDUf call)
           = (splineType (settings c) = PIECEWISE_LINEAR))"
    by (simp add: integrateSensitivities_stale sensitivityCalls_def)
  show "getUpdateCount w \<noteq> costSensIntegrationCount c \<longrightarrow>
      costGradientSi (integrateCostSensitivities I w c)
          = snd (seededCostDX0 I (integrateSensitivities I w c))
      \<and> costGradientQi (integrateCostSensitivities I w c)
          = snd (seededCostDU0 I (integrateSensitivities I w c))
      \<and> invocations (integrateCostSensitivities I w c)
          = invocations (integrateSensitivities I w c)
            @ [IntegrateCostSensitivityDX0 (setZero_vector (STATE_DIM c)),
               IntegrateCostSensitivityDU0 (setZero_vector (CONTROL_DIM c))]
            @ (if splineType (settings c) = PIECEWISE_LINEAR
               then [IntegrateCostSensitivityDUf (setZero_vector (CONTROL_DIM c))] else [])
      \<and> (splineType (settings c) = PIECEWISE_LINEAR \<longrightarrow>
            costGradientQip1 (integrateCostSensitivities I w c)
              = snd (seededCostDUf I (integrateSensitivities I w c)))
      \<and> (splineType (settings c) \<noteq> PIECEWISE_LINEAR \<longrightarrow>
            costGradientQip1 (integrateCostSensitivities I w c) = costGradientQip1 c)
      \<and> ((\<exists>call \<in> set (drop (length (invocations (integrateSensitivities I w c)))
                           (invocations (integrateCostSensitivities I w c))).
              isIntegrateCostSensitivityDUf call)
           = (splineType (settings c) = PIECEWISE_LINEAR))"
    by (simp add: integrateCostSensitivities_stale costSensitivityCalls_def)
qed

lemma example_constant_spline:
  "getUpdateCount (exampleVector 2)
     \<noteq> sensIntegrationCount
         (exampleContainer\<lparr>settings := exampleSettings\<lparr>splineType := PIECEWISE_CONSTANT\<rparr>\<rparr>)"
  "splineType (settings
     (exampleContainer\<lparr>settings := exampleSettings\<lparr>splineType := PIECEWISE_CONSTANT\<rparr>\<rparr>))
     \<noteq> PIECEWISE_LINEAR"
  "dXdQip1Back (exampleContainer\<lparr>settings := exampleSettings\<lparr>splineType := PIECEWISE_CONSTANT\<rparr>\<rparr>)
     = []"
  by (simp_all add: example_simps)

theorem sensitivity_seeds_witness:
  "getUpdateCount (exampleVector 2) \<noteq> sensIntegrationCount exampleContainer
   \<and> getUpdateCount (exampleVector 2) \<noteq> costSensIntegrationCount exampleContainer
   \<and> splineType (settings exampleContainer) = PIECEWISE_LINEAR
   \<and> dXdSiBack (integrateSensitivities exampleIntegrator (exampleVector 2) exampleContainer)
       = [[1, 0], [0, 1]]
   \<and> dXdQiBack (integrateSensitivities exampleIntegrator (exampleVector 2) exampleContainer)
       = [[0], [0]]
   \<and> dXdQip1Back (integrateSensitivities exampleIntegrator (exampleVector 2) exampleContainer)
       = snd (seededDUf exampleIntegrator
           (integrateShot exampleIntegrator (exampleVector 2) exampleContainer))
   \<and> invocations (integrateCostSensitivities exampleIntegrator (exampleVector 2) exampleContainer)
       = [SetLinearSystem, SetCostFunction, Integrate [2, 0], Linearize,
          IntegrateSensitivityDX0 [[1, 0], [0, 1]], IntegrateSensitivityDU0 [[0], [0]],
          IntegrateSensitivityDUf [[0], [0]], IntegrateCostSensitivityDX0 [0, 0],
          IntegrateCostSensitivityDU0 [0], IntegrateCostSensitivityDUf [0]]
   \<and> splineType (settings
         (exampleContainer\<lparr>settings := exampleSettings\<lparr>splineType := PIECEWISE_CONSTANT\<rparr>\<rparr>))
       \<noteq> PIECEWISE_LINEAR
   \<and> dXdQip1Back (integrateSensitivities exampleIntegrator (exampleVector 2)
         (exampleContainer\<lparr>settings := exampleSettings\<lparr>splineType := PIECEWISE_CONSTANT\<rparr>\<rparr>))
       = []"
proof -
  let ?k = "exampleContainer\<lparr>settings := exampleSettings\<lparr>splineType := PIECEWISE_CONSTANT\<rparr>\<rparr>"
  have p: "splineType (settings exampleContainer) = PIECEWISE_LINEAR"
    by (simp add: example_simps)
  from sensitivity_seeds [of "exampleVector 2" exampleContainer exampleIntegrator]
    example_stale(3) p
  have a: "dXdQip1Back (integrateSensitivities exampleIntegrator (exampleVector 2) exampleContainer)
       = snd (seededDUf exampleIntegrator
           (integrateShot exampleIntegrator (exampleVector 2) exampleContainer))"
    by blast
  from sensitivity_seeds [of "exampleVector 2" ?k exampleIntegrator] example_constant_spline(1,2)
  have "dXdQip1Back (integrateSensitivities exampleIntegrator (exampleVector 2) ?k)
      = dXdQip1Back ?k"
    by blast
  then have b: "dXdQip1Back (integrateSensitivities exampleIntegrator (exampleVector 2) ?k) = []"
    by (simp only: example_constant_spline(3))
  from a b p example_stale example_constant_spline(2) show ?thesis
    by (simp add: example_sensitivities example_costSensitivities)
qed

subsection \<open>Calling the last method directly\<close>

lemma example_costTransparent: "costTransparent exampleIntegrator fst"
  by (simp add: costTransparent_def sensitivitiesRespectView_def respectsView_def
      exampleIntegrator_def)

lemma example_direct_call:
  "sensitivityOutputs (integrateCostSensitivities exampleIntegrator (exampleVector 2) exampleContainer)
     = ([[2, 0], [2, 0]], [0, 0], [[1, 0], [0, 1]], [[0], [0]], [[0], [0]], [0, 0], [0], [0])"
  by (simp add: sensitivityOutputs_def integrateCostSensitivities_stale(2-6) [OF example_stale(4)]
      example_sensitivities example_costSensitivities)

lemma example_later_calls:
  fixes A B :: "(nat \<times> real) ShotContainer"
  defines "A \<equiv> integrateCostSensitivities exampleIntegrator (exampleVector 2) exampleContainer"
  defines "B \<equiv> integrateSensitivities exampleIntegrator (exampleVector 3) A"
  shows "counters B = (3, 0, 3, 2)"
    and "x_history B = [[3, 0], [3, 0]]"
    and "x_history (integrateCostSensitivities exampleIntegrator (exampleVector 2) B)
      = [[3, 0], [3, 0]]"
    and "x_history (fullChain exampleIntegrator (exampleVector 2) B) = [[2, 0], [2, 0]]"
proof -
  let ?I = exampleIntegrator
  let ?w2 = "exampleVector 2" and ?w3 = "exampleVector 3"
  have u: "getUpdateCount ?w2 = 2" "getUpdateCount ?w3 = 3"
    by (simp_all add: example_simps)
  have cA: "counters A = (2, 0, 2, 2)"
    by (simp add: A_def counters_def u example_simps)
  have kA: "nSteps A = 1" "shotNr A = 0"
    by (simp_all add: A_def example_simps)
  show cB: "counters B = (3, 0, 3, 2)"
    using cA by (simp add: B_def counters_def u)
  have sA: "getUpdateCount ?w3 \<noteq> sensIntegrationCount A"
    "getUpdateCount ?w3 \<noteq> integrationCount A"
    using cA by (simp_all add: counters_def u)
  show xB: "x_history B = [[3, 0], [3, 0]]"
    by (simp add: B_def integrateSensitivities_stale [OF sA(1)] integrateShot_stale [OF sA(2)] kA
        example_simps)
  have "integrateCostSensitivities ?I ?w2 B = B"
    using cB by (intro integrateCostSensitivities_fresh) (simp add: counters_def u)
  then show "x_history (integrateCostSensitivities ?I ?w2 B) = [[3, 0], [3, 0]]"
    by (simp add: xB)
  let ?b1 = "integrateShot ?I ?w2 B"
  let ?b2 = "integrateCost ?I ?w2 ?b1"
  let ?b3 = "integrateSensitivities ?I ?w2 ?b2"
  have kB: "nSteps B = 1" "shotNr B = 0"
    by (simp_all add: B_def kA)
  have sB: "getUpdateCount ?w2 \<noteq> integrationCount B"
    using cB by (simp add: counters_def u)
  have x1: "x_history ?b1 = [[2, 0], [2, 0]]"
    by (simp add: integrateShot_stale [OF sB] kB example_simps)
  have s1: "getUpdateCount ?w2 \<noteq> costIntegrationCount ?b1"
    using cB by (simp add: counters_def u)
  have x2: "x_history ?b2 = [[2, 0], [2, 0]]"
    by (simp add: integrateCost_stale [OF s1] integrateShot_fresh x1)
  have s2: "getUpdateCount ?w2 \<noteq> sensIntegrationCount ?b2"
    using cB by (simp add: counters_def u)
  have f2: "integrateShot ?I ?w2 ?b2 = ?b2"
    by (rule integrateShot_fresh) (simp add: s1)
  have x3: "x_history ?b3 = [[2, 0], [2, 0]]"
    by (simp add: integrateSensitivities_stale [OF s2] f2 x2)
  have "integrateCostSensitivities ?I ?w2 ?b3 = ?b3"
    using cB by (intro integrateCostSensitivities_fresh) (simp add: counters_def u)
  then show "x_history (fullChain ?I ?w2 B) = [[2, 0], [2, 0]]"
    by (simp add: fullChain_def x3)
qed

text \<open>
  Claim C3 says that from every state of the container and of the optimisation vector,
  \<open>integrateCostSensitivities\<close> alone leaves the same state history, sensitivity matrices
  and cost gradients as the four methods called in order. Take the container after
  \<open>integrateCostSensitivities\<close> at update count 2 and \<open>integrateSensitivities\<close> at update
  count 3, and an optimisation vector at update count 2. The counter of the cost
  sensitivities is 2, so the direct call returns at once and keeps the history integrated
  from the state at count 3; the four methods in order start with \<open>integrateShot\<close>, whose
  counter is 3, and integrate the history again from the state at count 2.
\<close>

theorem direct_call_stale_history_counterexample:
  "construct exampleIntegrator 2 1 exampleGrid 0 exampleSettings [] [] [] = Inr exampleContainer
   \<and> x_history (integrateCostSensitivities exampleIntegrator (exampleVector 2)
        (runCalls exampleIntegrator
           [(CostSensitivities, exampleVector 2), (Sensitivities, exampleVector 3)]
           exampleContainer))
       = [[3, 0], [3, 0]]
   \<and> x_history (fullChain exampleIntegrator (exampleVector 2)
        (runCalls exampleIntegrator
           [(CostSensitivities, exampleVector 2), (Sensitivities, exampleVector 3)]
           exampleContainer))
       = [[2, 0], [2, 0]]
   \<and> sensitivityOutputs (integrateCostSensitivities exampleIntegrator (exampleVector 2)
        (runCalls exampleIntegrator
           [(CostSensitivities, exampleVector 2), (Sensitivities, exampleVector 3)]
           exampleContainer))
       \<noteq> sensitivityOutputs (fullChain exampleIntegrator (exampleVector 2)
        (runCalls exampleIntegrator
           [(CostSensitivities, exampleVector 2), (Sensitivities, exampleVector 3)]
           exampleContainer))"
  using example_construct
  by (simp add: sensitivityOutputs_def example_later_calls)

text \<open>
  Claim C3, amended. Let freshness at the current update count be downward closed from
  the cost sensitivities to the sensitivities to the state integration, as it is in every
  state reached under update counts that never decrease, and let the integrator be
  transparent for the cost: its cost integration, which only the four methods in order may
  call, does not change what linearisation and the sensitivity integrations read. Then
  \<open>integrateCostSensitivities\<close> alone leaves the same state and time history, the same
  sensitivity matrices and the same cost gradients as the four methods called in order.
\<close>

theorem direct_call_equals_chain:
  assumes ct: "costTransparent I view"
    and h1: "costSensIntegrationCount c = getUpdateCount w \<longrightarrow> sensIntegrationCount c = getUpdateCount w"
    and h2: "sensIntegrationCount c = getUpdateCount w \<longrightarrow> integrationCount c = getUpdateCount w"
  shows "sensitivityOutputs (integrateCostSensitivities I w c) = sensitivityOutputs (fullChain I w c)"
proof -
  let ?c1 = "integrateShot I w c"
  let ?c2 = "integrateCost I w ?c1"
  from ct have r: "sensitivitiesRespectView I view"
    by (simp add: costTransparent_def)
  have a: "agreeUpToCost view ?c2 ?c1"
    by (rule agree_integrateCost [OF ct]) simp
  have b: "agreeUpToCost view (integrateSensitivities I w ?c2) (integrateSensitivities I w ?c1)"
    by (rule agree_sensitivities_after_shot [OF r a]) simp_all
  have d: "agreeUpToCost view (fullChain I w c)
      (integrateCostSensitivities I w (integrateSensitivities I w ?c1))"
    unfolding fullChain_def
    by (rule agree_costSensitivities_after_sensitivities [OF r b]) simp_all
  have "agreeUpToCost view (integrateCostSensitivities I w c)
      (integrateCostSensitivities I w (integrateSensitivities I w ?c1))"
    using costSensitivities_after_chain [OF h1 h2] by (rule agree_id_weaken)
  with d have "agreeUpToCost view (integrateCostSensitivities I w c) (fullChain I w c)"
    by (blast intro: agree_trans agree_sym)
  then show ?thesis by (rule agree_outputs)
qed

theorem direct_call_equals_chain_witness:
  "costTransparent exampleIntegrator fst
   \<and> integratorCT (integrateCost exampleIntegrator (exampleVector 2)
         (integrateShot exampleIntegrator (exampleVector 2) exampleContainer))
       \<noteq> integratorCT (integrateShot exampleIntegrator (exampleVector 2) exampleContainer)
   \<and> sensitivityOutputs (integrateCostSensitivities exampleIntegrator (exampleVector 2) exampleContainer)
       = sensitivityOutputs (fullChain exampleIntegrator (exampleVector 2) exampleContainer)
   \<and> sensitivityOutputs (fullChain exampleIntegrator (exampleVector 2) exampleContainer)
       = ([[2, 0], [2, 0]], [0, 0], [[1, 0], [0, 1]], [[0], [0]], [[0], [0]], [0, 0], [0], [0])
   \<and> sensIntegrationCount (integrateSensitivities exampleIntegrator (exampleVector 2) exampleContainer)
       = getUpdateCount (exampleVector 2)
   \<and> integrationCount (integrateSensitivities exampleIntegrator (exampleVector 2) exampleContainer)
       = getUpdateCount (exampleVector 2)
   \<and> sensitivityOutputs (integrateCostSensitivities exampleIntegrator (exampleVector 2)
         (integrateSensitivities exampleIntegrator (exampleVector 2) exampleContainer))
       = sensitivityOutputs (fullChain exampleIntegrator (exampleVector 2)
         (integrateSensitivities exampleIntegrator (exampleVector 2) exampleContainer))"
proof -
  let ?w = "exampleVector 2"
  let ?s = "integrateSensitivities exampleIntegrator ?w exampleContainer"
  have u: "getUpdateCount ?w = 2"
    by (simp add: exampleVector_def)
  have z: "costSensIntegrationCount exampleContainer = 0" "sensIntegrationCount exampleContainer = 0"
    by (simp_all add: exampleContainer_def)
  have h1: "costSensIntegrationCount exampleContainer = getUpdateCount ?w
      \<longrightarrow> sensIntegrationCount exampleContainer = getUpdateCount ?w"
    by (simp add: u z)
  have h2: "sensIntegrationCount exampleContainer = getUpdateCount ?w
      \<longrightarrow> integrationCount exampleContainer = getUpdateCount ?w"
    by (simp add: u z)
  have s: "sensIntegrationCount ?s = getUpdateCount ?w" "integrationCount ?s = getUpdateCount ?w"
    by (simp_all add: u z)
  have k1: "costSensIntegrationCount ?s = getUpdateCount ?w \<longrightarrow> sensIntegrationCount ?s = getUpdateCount ?w"
    using s by simp
  have k2: "sensIntegrationCount ?s = getUpdateCount ?w \<longrightarrow> integrationCount ?s = getUpdateCount ?w"
    using s by simp
  have c: "getUpdateCount ?w \<noteq> costIntegrationCount (integrateShot exampleIntegrator ?w exampleContainer)"
    by (simp add: u example_simps)
  have "integratorCT (integrateCost exampleIntegrator ?w
      (integrateShot exampleIntegrator ?w exampleContainer)) = (1, 1)"
    by (simp add: integrateCost_stale(3) [OF c] integrateShot_fresh example_shot example_simps)
  then have n: "integratorCT (integrateCost exampleIntegrator ?w
        (integrateShot exampleIntegrator ?w exampleContainer))
      \<noteq> integratorCT (integrateShot exampleIntegrator ?w exampleContainer)"
    by (simp add: example_shot)
  show ?thesis
    using direct_call_equals_chain [OF example_costTransparent h1 h2]
      direct_call_equals_chain [OF example_costTransparent k1 k2]
      example_direct_call example_costTransparent s n
    by simp
qed

subsection \<open>The step count\<close>





text \<open>
  A shot that ends at \<open>-1.5\<close> and starts at 0, integrated with step size 1: the quotient is
  \<open>-1.5\<close>, the sum \<open>-1\<close>, and the step count stored is \<open>2^64 - 1\<close>.
\<close>

lemma example_backward:
  "\<exists>c. construct exampleIntegrator 2 1 backwardGrid 0 exampleSettings [] [] [] = Inr c
     \<and> unat (nSteps c) = 18446744073709551615"
  using step_count_negative
  by (simp add: construct_def construct_members_def backwardGrid_def exampleSettings_def
      Let_def)




end
